theory Spec2Isabelle
  imports Main "HOL-Library.Word" "HOL-Library.Sublist"
begin

unbundle bit_operations_syntax

section \<open>Errors\<close>

text \<open>
  A Go \<^verbatim>\<open>error\<close> value is either \<^verbatim>\<open>nil\<close> or one of the sentinel values the packages
  declare.  A function returning only \<^verbatim>\<open>error\<close> is modelled with result type
  \<open>err option\<close> (\<open>None\<close> is \<^verbatim>\<open>nil\<close>); a function returning a value and an error with a
  sum \<open>err + 'a\<close>.  Errors that come out of libraries (database driver, cipher, strconv,
  uuid) have their own constructors, and a Go panic is the constructor \<open>Panic\<close>.
\<close>

datatype err =
    ErrTitleEmpty
  | ErrTitleLong
  | ErrCredentialEmptyLogin
  | ErrCardNumberInvalid
  | ErrCardCVVInvalid
  | ErrEmptyTextProvided
  | ErrUserNotFound
  | ErrDuplicateLogin
  | ErrLoginTooShort
  | ErrLoginTooLong
  | ErrPasswordTooShort
  | ErrInvalidCredentials
  | ErrInvalidRefreshCredentials
  | ErrTokenAlreadyRotatedOrExpired
  | ErrTokenDoesntExistsByJTI
  | ErrAccessExpiredToken
  | ErrAccessInvalidSubject
  | ErrRefreshExpiredToken
  | ErrRefreshInvalidClaims
  | ErrUnexpectedSigningMethod
  | ErrSecretTooShort
  | ErrAEADWrongLength
  | ErrOpen
  | KeySizeError nat
  | ErrEOF
  | ErrUnexpectedEOF
  | ErrNoRows
  | PqError string
  | ErrSyntax
  | ErrRange
  | ErrInvalidUUID
  | LibError string
  | Panic string

section \<open>Strings\<close>

text \<open>
  A Go string is a sequence of bytes and \<^verbatim>\<open>len\<close> counts bytes; so it is a \<open>string\<close>
  (a list of 8-bit \<open>char\<close>s) here and \<open>length\<close> is \<^verbatim>\<open>len\<close>.

  \<^verbatim>\<open>strings.TrimSpace\<close> removes leading and trailing runes for which
  \<^verbatim>\<open>unicode.IsSpace\<close> holds.  UTF-8 is a prefix code and the decoder accepts shortest
  encodings only, so the rune at the front (at the back) of a string is white space
  exactly when the string starts (ends) with the encoding of a white-space code point:
  the six ASCII ones, U+0085, U+00A0, U+1680, U+2000 to U+200A, U+2028, U+2029, U+202F,
  U+205F and U+3000.
\<close>

definition spaceEncodings :: "string list" where
  "spaceEncodings =
    [[CHR 0x09], [CHR 0x0A], [CHR 0x0B], [CHR 0x0C], [CHR 0x0D], [CHR 0x20],
     [CHR 0xC2, CHR 0x85], [CHR 0xC2, CHR 0xA0],
     [CHR 0xE1, CHR 0x9A, CHR 0x80],
     [CHR 0xE2, CHR 0x80, CHR 0x80], [CHR 0xE2, CHR 0x80, CHR 0x81],
     [CHR 0xE2, CHR 0x80, CHR 0x82], [CHR 0xE2, CHR 0x80, CHR 0x83],
     [CHR 0xE2, CHR 0x80, CHR 0x84], [CHR 0xE2, CHR 0x80, CHR 0x85],
     [CHR 0xE2, CHR 0x80, CHR 0x86], [CHR 0xE2, CHR 0x80, CHR 0x87],
     [CHR 0xE2, CHR 0x80, CHR 0x88], [CHR 0xE2, CHR 0x80, CHR 0x89],
     [CHR 0xE2, CHR 0x80, CHR 0x8A],
     [CHR 0xE2, CHR 0x80, CHR 0xA8], [CHR 0xE2, CHR 0x80, CHR 0xA9],
     [CHR 0xE2, CHR 0x80, CHR 0xAF], [CHR 0xE2, CHR 0x81, CHR 0x9F],
     [CHR 0xE3, CHR 0x80, CHR 0x80]]"

text \<open>The number of bytes of the white-space rune a string starts with (0: none).\<close>

definition leadingSpace :: "string \<Rightarrow> nat" where
  "leadingSpace s =
     (case find (\<lambda>e. prefix e s) spaceEncodings of None \<Rightarrow> 0 | Some e \<Rightarrow> length e)"

definition trailingSpace :: "string \<Rightarrow> nat" where
  "trailingSpace s =
     (case find (\<lambda>e. suffix e s) spaceEncodings of None \<Rightarrow> 0 | Some e \<Rightarrow> length e)"

lemma find_prefix_le:
  "find (\<lambda>e. prefix e s) es = Some e \<Longrightarrow> length e \<le> length s"
  by (auto simp: find_Some_iff dest: prefix_length_le)

lemma find_suffix_le:
  "find (\<lambda>e. suffix e s) es = Some e \<Longrightarrow> length e \<le> length s"
  by (auto simp: find_Some_iff dest: suffix_length_le)

lemma leadingSpace_le: "leadingSpace s \<le> length s"
  by (auto simp: leadingSpace_def split: option.splits dest: find_prefix_le)

lemma trailingSpace_le: "trailingSpace s \<le> length s"
  by (auto simp: trailingSpace_def split: option.splits dest: find_suffix_le)

function TrimLeft :: "string \<Rightarrow> string" where
  "TrimLeft s = (if leadingSpace s = 0 then s else TrimLeft (drop (leadingSpace s) s))"
  by pat_completeness auto
termination
proof (relation "measure length")
  show "wf (measure length)" by simp
next
  fix s :: string
  assume "leadingSpace s \<noteq> 0"
  moreover have "leadingSpace s \<le> length s" by (rule leadingSpace_le)
  ultimately show "(drop (leadingSpace s) s, s) \<in> measure length" by simp
qed

function TrimRight :: "string \<Rightarrow> string" where
  "TrimRight s =
     (if trailingSpace s = 0 then s else TrimRight (take (length s - trailingSpace s) s))"
  by pat_completeness auto
termination
proof (relation "measure length")
  show "wf (measure length)" by simp
next
  fix s :: string
  assume "trailingSpace s \<noteq> 0"
  moreover have "trailingSpace s \<le> length s" by (rule trailingSpace_le)
  ultimately show "(take (length s - trailingSpace s) s, s) \<in> measure length" by simp
qed

declare TrimLeft.simps [simp del] TrimRight.simps [simp del]

definition TrimSpace :: "string \<Rightarrow> string" where
  "TrimSpace s = TrimRight (TrimLeft s)"

text \<open>\<^verbatim>\<open>strings.ReplaceAll(s, " ", "")\<close>: every byte 0x20 is dropped.\<close>

definition ReplaceAll_space :: "string \<Rightarrow> string" where
  "ReplaceAll_space s = filter (\<lambda>c. c \<noteq> CHR '' '') s"

text \<open>
  \<^verbatim>\<open>unicode.IsDigit(rune(b))\<close> for a byte \<open>b\<close>: the rune is below U+0100, where the only
  decimal digits are \<^verbatim>\<open>'0'\<close> to \<^verbatim>\<open>'9'\<close>.
\<close>

definition IsDigit :: "char \<Rightarrow> bool" where
  "IsDigit c \<longleftrightarrow> 48 \<le> (of_char c :: nat) \<and> (of_char c :: nat) \<le> 57"

text \<open>
  The characters of a string are its runes, as \<^verbatim>\<open>utf8.RuneCountInString\<close> counts them.
  At the front of a string stands either a well-formed UTF-8 sequence of one to four
  bytes, which is one rune, or a byte that begins none, which counts as one rune by
  itself.  \<open>follows\<close> checks the bytes after the first against their admitted ranges.
\<close>

fun follows :: "(nat \<times> nat) list \<Rightarrow> string \<Rightarrow> bool" where
  "follows [] s = True"
| "follows (r # rs) [] = False"
| "follows (r # rs) (c # s) = (fst r \<le> of_char c \<and> (of_char c :: nat) \<le> snd r \<and> follows rs s)"

definition runeWidth :: "string \<Rightarrow> nat" where
  "runeWidth s =
     (case s of
        [] \<Rightarrow> 0
      | c # rest \<Rightarrow>
          (let b = (of_char c :: nat) in
           if b < 0x80 then 1
           else if 0xC2 \<le> b \<and> b \<le> 0xDF then
             (if follows [(0x80, 0xBF)] rest then 2 else 1)
           else if b = 0xE0 then
             (if follows [(0xA0, 0xBF), (0x80, 0xBF)] rest then 3 else 1)
           else if b = 0xED then
             (if follows [(0x80, 0x9F), (0x80, 0xBF)] rest then 3 else 1)
           else if 0xE1 \<le> b \<and> b \<le> 0xEF then
             (if follows [(0x80, 0xBF), (0x80, 0xBF)] rest then 3 else 1)
           else if b = 0xF0 then
             (if follows [(0x90, 0xBF), (0x80, 0xBF), (0x80, 0xBF)] rest then 4 else 1)
           else if 0xF1 \<le> b \<and> b \<le> 0xF3 then
             (if follows [(0x80, 0xBF), (0x80, 0xBF), (0x80, 0xBF)] rest then 4 else 1)
           else if b = 0xF4 then
             (if follows [(0x80, 0x8F), (0x80, 0xBF), (0x80, 0xBF)] rest then 4 else 1)
           else 1))"

lemma runeWidth_pos: "s \<noteq> [] \<Longrightarrow> 0 < runeWidth s"
  by (cases s) (simp_all add: runeWidth_def Let_def)

function RuneCount :: "string \<Rightarrow> nat" where
  "RuneCount s = (if s = [] then 0 else Suc (RuneCount (drop (runeWidth s) s)))"
  by pat_completeness auto
termination
proof (relation "measure length")
  show "wf (measure length)" by simp
next
  fix s :: string
  assume "s \<noteq> []"
  then have "0 < runeWidth s" and "0 < length s" by (simp_all add: runeWidth_pos)
  then show "(drop (runeWidth s) s, s) \<in> measure length" by simp
qed

declare RuneCount.simps [simp del]

text \<open>A string of ASCII characters: every byte is below 0x80 and is one character.\<close>

definition isASCII :: "string \<Rightarrow> bool" where
  "isASCII s = list_all (\<lambda>c. (of_char c :: nat) < 0x80) s"

section \<open>Validation of keychain input\<close>

definition ValidateTitle :: "string \<Rightarrow> err option" where
  "ValidateTitle title =
     (let t = TrimSpace title in
      if t = [] then Some ErrTitleEmpty
      else if length t > 128 then Some ErrTitleLong
      else None)"

definition ValidateCredential :: "string \<Rightarrow> err option" where
  "ValidateCredential login =
     (let l = TrimSpace login in
      if l = [] then Some ErrCredentialEmptyLogin else None)"

definition ValidateText :: "string \<Rightarrow> err option" where
  "ValidateText text =
     (let t = TrimSpace text in
      if t = [] then Some ErrEmptyTextProvided else None)"

text \<open>
  The loop of \<^verbatim>\<open>isValidLuhn\<close> runs \<^verbatim>\<open>i\<close> from \<^verbatim>\<open>len(number) - 1\<close> down to 0: it is a
  recursion over the reversed string with the two loop variables \<^verbatim>\<open>sum\<close> (here
  \<open>acc\<close>) and \<^verbatim>\<open>double\<close>.  \<^verbatim>\<open>sum\<close> is a Go \<^verbatim>\<open>int\<close> that grows by at most 9 a byte, so it stays far
  from 2^63 and is an \<open>int\<close> here; it is never negative, so Go's \<^verbatim>\<open>%\<close> is \<open>mod\<close>.
\<close>

fun luhnLoop :: "string \<Rightarrow> int \<Rightarrow> bool \<Rightarrow> bool" where
  "luhnLoop [] acc double = (acc mod 10 = 0)"
| "luhnLoop (r # rest) acc double =
     (if \<not> IsDigit r then False
      else
        let digit = (of_char r :: int) - 48;
            digit = (if double
                     then (let d = digit * 2 in if d > 9 then d - 9 else d)
                     else digit)
        in luhnLoop rest (acc + digit) (\<not> double))"

definition isValidLuhn :: "string \<Rightarrow> bool" where
  "isValidLuhn number = luhnLoop (rev (ReplaceAll_space number)) 0 False"

definition ValidateCard :: "string \<Rightarrow> string \<Rightarrow> err option" where
  "ValidateCard num cvv =
     (let num = TrimSpace num in
      if \<not> isValidLuhn num then Some ErrCardNumberInvalid
      else
        let cvv = TrimSpace cvv in
        if length cvv \<noteq> 3 then Some ErrCardCVVInvalid
        else None)"


section \<open>Validation of logins and passwords\<close>

definition ValidateLogin :: "string \<Rightarrow> err option" where
  "ValidateLogin l =
     (if length l \<le> 3 then Some ErrLoginTooShort
      else if length l > 64 then Some ErrLoginTooLong
      else None)"

definition ValidatePassword :: "string \<Rightarrow> err option" where
  "ValidatePassword p = (if length p < 8 then Some ErrPasswordTooShort else None)"

section \<open>The database\<close>

text \<open>
  The tables of the migrations, as lists of rows in insertion order.  A \<^verbatim>\<open>uuid.UUID\<close> is
  a 128-bit value, a \<^verbatim>\<open>time.Time\<close> an instant on the time line (an \<open>int\<close>), a user id a
  Go \<^verbatim>\<open>int64\<close> that holds a value of a \<^verbatim>\<open>SERIAL\<close> column (an \<open>int\<close>).  A row of
  \<^verbatim>\<open>auth_refresh_tokens\<close> is a \<^verbatim>\<open>RefreshTokenRecord\<close> (the column \<^verbatim>\<open>created_at\<close> is never
  read), a row of \<^verbatim>\<open>keychain\<close> a \<^verbatim>\<open>KeyRecord\<close> with the flag \<^verbatim>\<open>soft_deleted\<close>.

  The statements are executed as PostgreSQL does for these tables: the key constraints
  of the migrations (\<^verbatim>\<open>PRIMARY KEY\<close>, \<^verbatim>\<open>UNIQUE\<close>, \<^verbatim>\<open>REFERENCES users(id)\<close>) are checked
  and raise the driver's error with SQLSTATE 23505 or 23503.  The connection itself is
  taken to work (no I/O error, no cancelled context), and values are stored as the Go
  code passes them: a string is taken to be well-formed text of the database's encoding.

  A column \<^verbatim>\<open>VARCHAR(n)\<close> takes a text of at most \<open>n\<close> characters as it is; of a longer
  text it cuts what follows the first \<open>n\<close> characters if that is spaces only, and
  refuses the text otherwise (SQLSTATE 22001).  \<open>clipLen n s\<close> is the number of bytes
  of the first \<open>n\<close> characters of \<open>s\<close>.  The default of a \<^verbatim>\<open>SERIAL\<close> column and this
  conversion are computed before the row is checked against the keys.
\<close>

primrec clipLen :: "nat \<Rightarrow> string \<Rightarrow> nat" where
  "clipLen 0 s = 0"
| "clipLen (Suc n) s =
     (if s = [] then 0 else runeWidth s + clipLen n (drop (runeWidth s) s))"

definition varchar :: "nat \<Rightarrow> string \<Rightarrow> err + string" where
  "varchar n s =
     (if RuneCount s \<le> n then Inr s
      else if list_all (\<lambda>c. c = CHR '' '') (drop (clipLen n s) s) then Inr (take (clipLen n s) s)
      else Inl (PqError ''22001''))"


type_synonym uuid = "128 word"
type_synonym time = int

record UserRecord =
  ID :: int
  Login :: string
  PasswordHash :: string

record RefreshTokenRecord =
  JTI :: uuid
  UserID :: int
  TokenHash :: string
  IssuedAt :: time
  ExpiresAt :: time
  ReplacedBy :: "uuid option"

datatype KeyType = KeyCredential | KeyText | KeyFile | KeyBankCard

type_synonym byte = "8 word"

record KeyRecord =
  kID :: int
  KeyUUID :: uuid
  kUserID :: int
  kKeyType :: KeyType
  Title :: string
  Data :: "byte list"
  Nonce :: "byte list"
  CreatedAt :: time
  UpdatedAt :: time

record keychain_row =
  row :: KeyRecord
  soft_deleted :: bool

text \<open>
  The service reaches its collaborators (password hasher, token manager, repositories)
  through interfaces.  Every call it makes through one of them is written to \<open>trace\<close>,
  in order, so that "before invoking" and "proceeds to" are statements about the state.
\<close>

datatype call =
    CallHashPassword string
  | CallCheckPasswordHash string string
  | CallUserCreate string string
  | CallGetByLogin string
  | CallGenerateAccessToken int
  | CallGenerateRefreshToken int
  | CallParseRefreshToken string
  | CallSha256Hex string
  | CallTokenCreate int uuid string time time
  | CallRotate int uuid uuid string time time
  | CallGetByJTI uuid

record world =
  users :: "UserRecord list"
  users_id_seq :: int
  auth_refresh_tokens :: "RefreshTokenRecord list"
  keychain :: "keychain_row list"
  keychain_id_seq :: int
  trace :: "call list"

definition logCall :: "call \<Rightarrow> world \<Rightarrow> world" where
  "logCall c w = w\<lparr>trace := trace w @ [c]\<rparr>"

subsection \<open>UsersRepository\<close>

text \<open>
  \<^verbatim>\<open>INSERT INTO users (login, password) VALUES ($1, $2) RETURNING id\<close>: the default of
  \<^verbatim>\<open>id\<close> takes the next value of the sequence, also when the row is then refused.
\<close>

definition UsersRepository_Create :: "world \<Rightarrow> string \<Rightarrow> string \<Rightarrow> (err + int) \<times> world" where
  "UsersRepository_Create w login passwordHash =
     (let newId = users_id_seq w + 1;
          w1 = w\<lparr>users_id_seq := newId\<rparr>
      in (case varchar 64 login of
            Inl e \<Rightarrow> (Inl e, w1)
          | Inr stored \<Rightarrow>
              if stored \<in> set (map Login (users w)) \<or> newId \<in> set (map ID (users w))
              then (Inl ErrDuplicateLogin, w1)
              else (Inr newId,
                    w1\<lparr>users := users w @
                      [\<lparr>ID = newId, Login = stored, PasswordHash = passwordHash\<rparr>]\<rparr>)))"

definition UsersRepository_GetByLogin :: "world \<Rightarrow> string \<Rightarrow> err + UserRecord" where
  "UsersRepository_GetByLogin w login =
     (case find (\<lambda>u. Login u = login) (users w) of
        None \<Rightarrow> Inl ErrUserNotFound
      | Some au \<Rightarrow> Inr au)"

subsection \<open>TokensRepository\<close>

text \<open>
  \<^verbatim>\<open>queryInsert\<close>: the new row has no \<^verbatim>\<open>replaced_by\<close>.  The primary key \<^verbatim>\<open>jti\<close> is checked
  when the row enters the index, the foreign key \<^verbatim>\<open>user_id\<close> at the end of the statement.
\<close>

definition queryInsert ::
  "world \<Rightarrow> int \<Rightarrow> uuid \<Rightarrow> string \<Rightarrow> time \<Rightarrow> time \<Rightarrow> err + world" where
  "queryInsert w userID jti tokenHash issuedAt expiresAt =
     (if jti \<in> set (map JTI (auth_refresh_tokens w)) then Inl (PqError ''23505'')
      else if userID \<notin> set (map ID (users w)) then Inl (PqError ''23503'')
      else Inr (w\<lparr>auth_refresh_tokens := auth_refresh_tokens w @
                 [\<lparr>JTI = jti, UserID = userID, TokenHash = tokenHash,
                   IssuedAt = issuedAt, ExpiresAt = expiresAt, ReplacedBy = None\<rparr>]\<rparr>))"

definition TokensRepository_Create ::
  "world \<Rightarrow> int \<Rightarrow> uuid \<Rightarrow> string \<Rightarrow> time \<Rightarrow> time \<Rightarrow> err option \<times> world" where
  "TokensRepository_Create w userID jti tokenHash issuedAt expiresAt =
     (case queryInsert w userID jti tokenHash issuedAt expiresAt of
        Inl e \<Rightarrow> (Some e, w)
      | Inr w' \<Rightarrow> (None, w'))"

text \<open>
  \<^verbatim>\<open>queryUpdate\<close>: the rows the \<^verbatim>\<open>WHERE\<close> clause selects at the database's clock
  \<^verbatim>\<open>NOW()\<close>, and the table after the update.
\<close>

definition queryUpdate_where :: "time \<Rightarrow> uuid \<Rightarrow> int \<Rightarrow> RefreshTokenRecord \<Rightarrow> bool" where
  "queryUpdate_where dbNow oldJTI userID r \<longleftrightarrow>
     JTI r = oldJTI \<and> UserID r = userID \<and> ReplacedBy r = None \<and> ExpiresAt r > dbNow"

definition queryUpdate :: "world \<Rightarrow> time \<Rightarrow> uuid \<Rightarrow> uuid \<Rightarrow> int \<Rightarrow> nat \<times> world" where
  "queryUpdate w dbNow newJTI oldJTI userID =
     (length (filter (queryUpdate_where dbNow oldJTI userID) (auth_refresh_tokens w)),
      w\<lparr>auth_refresh_tokens :=
          map (\<lambda>r. if queryUpdate_where dbNow oldJTI userID r
                    then r\<lparr>ReplacedBy := Some newJTI\<rparr> else r)
              (auth_refresh_tokens w)\<rparr>)"

text \<open>
  \<^verbatim>\<open>Rotate\<close> runs both statements in one transaction.  Every return before
  \<^verbatim>\<open>tx.Commit()\<close> leaves through the deferred \<^verbatim>\<open>tx.Rollback()\<close>: the world is the one
  the call started with.
\<close>

definition TokensRepository_Rotate ::
  "world \<Rightarrow> time \<Rightarrow> int \<Rightarrow> uuid \<Rightarrow> uuid \<Rightarrow> string \<Rightarrow> time \<Rightarrow> time \<Rightarrow> err option \<times> world" where
  "TokensRepository_Rotate w dbNow userID oldJTI newJTI newHash newIssuedAt newExpiresAt =
     (let (aff, tx) = queryUpdate w dbNow newJTI oldJTI userID in
      if aff \<noteq> 1 then (Some ErrTokenAlreadyRotatedOrExpired, w)
      else
        (case queryInsert tx userID newJTI newHash newIssuedAt newExpiresAt of
           Inl e \<Rightarrow> (Some e, w)
         | Inr tx' \<Rightarrow> (None, tx')))"

definition TokensRepository_GetByJTI :: "world \<Rightarrow> uuid \<Rightarrow> err + RefreshTokenRecord" where
  "TokensRepository_GetByJTI w jti =
     (case find (\<lambda>r. JTI r = jti) (auth_refresh_tokens w) of
        None \<Rightarrow> Inl ErrTokenDoesntExistsByJTI
      | Some rt \<Rightarrow> Inr rt)"

section \<open>Refresh tokens\<close>

text \<open>
  \<^verbatim>\<open>now.After(rec.ExpiresAt)\<close> is \<open>now > ExpiresAt rec\<close>;
  \<^verbatim>\<open>subtle.ConstantTimeCompare(x, y)\<close> is 1 exactly when the two byte slices are equal.
\<close>

definition ConstantTimeCompare :: "'a list \<Rightarrow> 'a list \<Rightarrow> int" where
  "ConstantTimeCompare x y = (if x = y then 1 else 0)"

definition ValidateToken :: "time \<Rightarrow> int \<Rightarrow> string \<Rightarrow> RefreshTokenRecord \<Rightarrow> err option" where
  "ValidateToken now userId incomingHash rec =
     (if UserID rec \<noteq> userId then Some ErrInvalidRefreshCredentials
      else if ReplacedBy rec \<noteq> None then Some ErrInvalidRefreshCredentials
      else if now > ExpiresAt rec then Some ErrInvalidRefreshCredentials
      else if ConstantTimeCompare (TokenHash rec) incomingHash \<noteq> 1
        then Some ErrInvalidRefreshCredentials
      else None)"


section \<open>The token manager\<close>

text \<open>
  \<^verbatim>\<open>AuthService\<close> holds a \<^verbatim>\<open>PasswordHasher\<close> and a \<^verbatim>\<open>TokenManager\<close>: interfaces, here
  records of functions.  \<^verbatim>\<open>GenerateRefreshToken\<close> returns the token, its jti and its
  time to live (a \<^verbatim>\<open>time.Duration\<close>, an \<open>int\<close>).
\<close>

record PasswordHasher =
  HashPassword :: "string \<Rightarrow> err + string"
  CheckPasswordHash :: "string \<Rightarrow> string \<Rightarrow> bool"

record TokenManager =
  GenerateRefreshToken :: "int \<Rightarrow> err + (string \<times> uuid \<times> int)"
  ParseRefreshToken :: "string \<Rightarrow> err + (string \<times> string)"
  GenerateAccessToken :: "int \<Rightarrow> err + string"
  Sha256Hex :: "string \<Rightarrow> string"

text \<open>
  \<^verbatim>\<open>JWTManager.ParseRefreshToken\<close>.  The parameter \<open>ParseWithClaims\<close> is the call
  \<^verbatim>\<open>jwt.ParseWithClaims(tokenStr, &claims, keyFunc, ...)\<close> of the JWT library with the
  manager's key function and options: it returns the library's error, or the claims it
  decoded and the flag \<^verbatim>\<open>tkn.Valid\<close>.
\<close>

record Claims =
  Subject :: string
  ClaimsID :: string

definition JWTManager_ParseRefreshToken ::
  "(string \<Rightarrow> err + (Claims \<times> bool)) \<Rightarrow> string \<Rightarrow> err + (string \<times> string)" where
  "JWTManager_ParseRefreshToken ParseWithClaims tokenStr =
     (case ParseWithClaims tokenStr of
        Inl e \<Rightarrow> Inl ErrRefreshExpiredToken
      | Inr (claims, valid) \<Rightarrow>
          if \<not> valid then Inl ErrRefreshExpiredToken
          else if Subject claims = [] \<or> ClaimsID claims = [] then Inl ErrRefreshInvalidClaims
          else Inr (Subject claims, ClaimsID claims))"

text \<open>
  \<^verbatim>\<open>strconv.ParseInt(s, 10, 64)\<close>: an optional sign, then \<^verbatim>\<open>ParseUint\<close> on the rest.
  \<^verbatim>\<open>ParseUint\<close> reads the bytes from the left: a byte that is no decimal digit is a
  syntax error, a digit that takes the value beyond 64 bits a range error, whichever
  comes first.  A value outside the range of an \<^verbatim>\<open>int64\<close> is a range error too.
\<close>

fun ParseUintLoop :: "string \<Rightarrow> nat \<Rightarrow> err + nat" where
  "ParseUintLoop [] n = Inr n"
| "ParseUintLoop (c # cs) n =
     (if \<not> IsDigit c then Inl ErrSyntax
      else if 10 * n + (of_char c - 48) \<ge> 2 ^ 64 then Inl ErrRange
      else ParseUintLoop cs (10 * n + (of_char c - 48)))"

definition ParseUint :: "string \<Rightarrow> err + nat" where
  "ParseUint s = (if s = [] then Inl ErrSyntax else ParseUintLoop s 0)"

definition ParseInt :: "string \<Rightarrow> err + int" where
  "ParseInt s =
     (if s = [] then Inl ErrSyntax
      else
        let neg = (hd s = CHR ''-'');
            ds = (if hd s = CHR ''+'' \<or> hd s = CHR ''-'' then tl s else s)
        in (case ParseUint ds of
              Inl e \<Rightarrow> Inl e
            | Inr un \<Rightarrow>
                if \<not> neg \<and> un \<ge> 2 ^ 63 then Inl ErrRange
                else if neg \<and> un > 2 ^ 63 then Inl ErrRange
                else Inr (if neg then - int un else int un)))"

section \<open>AuthService\<close>

text \<open>
  Go's \<^verbatim>\<open>x, err := f(); if err != nil { return ..., err }\<close> is \<open>andThen\<close>: the first
  error ends the function, with the world as it is at that point.
\<close>

definition andThen ::
  "(err + 'a) \<times> world \<Rightarrow> ('a \<Rightarrow> world \<Rightarrow> (err + 'b) \<times> world) \<Rightarrow> (err + 'b) \<times> world" where
  "andThen m f = (case m of (Inl e, w) \<Rightarrow> (Inl e, w) | (Inr x, w) \<Rightarrow> f x w)"

definition ofError :: "err option \<times> world \<Rightarrow> (err + unit) \<times> world" where
  "ofError m = (case m of (Some e, w) \<Rightarrow> (Inl e, w) | (None, w) \<Rightarrow> (Inr (), w))"

text \<open>The calls through the interfaces, each written to the trace.\<close>

definition hasher_HashPassword :: "PasswordHasher \<Rightarrow> string \<Rightarrow> world \<Rightarrow> (err + string) \<times> world" where
  "hasher_HashPassword h password w =
     (HashPassword h password, logCall (CallHashPassword password) w)"

definition hasher_CheckPasswordHash :: "PasswordHasher \<Rightarrow> string \<Rightarrow> string \<Rightarrow> world \<Rightarrow> bool \<times> world" where
  "hasher_CheckPasswordHash h password hash w =
     (CheckPasswordHash h password hash, logCall (CallCheckPasswordHash password hash) w)"

definition userRepo_Create :: "string \<Rightarrow> string \<Rightarrow> world \<Rightarrow> (err + int) \<times> world" where
  "userRepo_Create login passwordHash w =
     UsersRepository_Create (logCall (CallUserCreate login passwordHash) w) login passwordHash"

definition userRepo_GetByLogin :: "string \<Rightarrow> world \<Rightarrow> (err + UserRecord) \<times> world" where
  "userRepo_GetByLogin login w =
     (UsersRepository_GetByLogin w login, logCall (CallGetByLogin login) w)"

definition tokenManager_GenerateAccessToken :: "TokenManager \<Rightarrow> int \<Rightarrow> world \<Rightarrow> (err + string) \<times> world" where
  "tokenManager_GenerateAccessToken tm userId w =
     (GenerateAccessToken tm userId, logCall (CallGenerateAccessToken userId) w)"

definition tokenManager_GenerateRefreshToken ::
  "TokenManager \<Rightarrow> int \<Rightarrow> world \<Rightarrow> (err + (string \<times> uuid \<times> int)) \<times> world" where
  "tokenManager_GenerateRefreshToken tm userId w =
     (GenerateRefreshToken tm userId, logCall (CallGenerateRefreshToken userId) w)"

definition tokenManager_ParseRefreshToken ::
  "TokenManager \<Rightarrow> string \<Rightarrow> world \<Rightarrow> (err + (string \<times> string)) \<times> world" where
  "tokenManager_ParseRefreshToken tm tokenStr w =
     (ParseRefreshToken tm tokenStr, logCall (CallParseRefreshToken tokenStr) w)"

definition tokenManager_Sha256Hex :: "TokenManager \<Rightarrow> string \<Rightarrow> world \<Rightarrow> string \<times> world" where
  "tokenManager_Sha256Hex tm s w = (Sha256Hex tm s, logCall (CallSha256Hex s) w)"

definition tokenRepo_Create ::
  "int \<Rightarrow> uuid \<Rightarrow> string \<Rightarrow> time \<Rightarrow> time \<Rightarrow> world \<Rightarrow> (err + unit) \<times> world" where
  "tokenRepo_Create userID jti tokenHash issuedAt expiresAt w =
     ofError (TokensRepository_Create
                (logCall (CallTokenCreate userID jti tokenHash issuedAt expiresAt) w)
                userID jti tokenHash issuedAt expiresAt)"

definition tokenRepo_Rotate ::
  "time \<Rightarrow> int \<Rightarrow> uuid \<Rightarrow> uuid \<Rightarrow> string \<Rightarrow> time \<Rightarrow> time \<Rightarrow> world \<Rightarrow> (err + unit) \<times> world" where
  "tokenRepo_Rotate dbNow userID oldJTI newJTI newHash newIssuedAt newExpiresAt w =
     ofError (TokensRepository_Rotate
                (logCall (CallRotate userID oldJTI newJTI newHash newIssuedAt newExpiresAt) w)
                dbNow userID oldJTI newJTI newHash newIssuedAt newExpiresAt)"

definition tokenRepo_GetByJTI :: "uuid \<Rightarrow> world \<Rightarrow> (err + RefreshTokenRecord) \<times> world" where
  "tokenRepo_GetByJTI jti w =
     (TokensRepository_GetByJTI w jti, logCall (CallGetByJTI jti) w)"

text \<open>
  \<^verbatim>\<open>Register\<close> and \<^verbatim>\<open>Login\<close>.  \<open>now\<close> is the value of \<^verbatim>\<open>time.Now().UTC()\<close> the
  function reads; \<^verbatim>\<open>issuedAt.Add(refreshTTL)\<close> is a sum.
\<close>

definition Register ::
  "PasswordHasher \<Rightarrow> TokenManager \<Rightarrow> time \<Rightarrow> world \<Rightarrow> string \<Rightarrow> string
     \<Rightarrow> (err + (int \<times> string \<times> string)) \<times> world" where
  "Register h tm now w login password =
     (case ValidateLogin login of
        Some e \<Rightarrow> (Inl e, w)
      | None \<Rightarrow>
          (case ValidatePassword password of
             Some e \<Rightarrow> (Inl e, w)
           | None \<Rightarrow>
               andThen (hasher_HashPassword h password w) (\<lambda>passwordHash w.
               andThen (userRepo_Create login passwordHash w) (\<lambda>userId w.
               andThen (tokenManager_GenerateAccessToken tm userId w) (\<lambda>accessToken w.
               andThen (tokenManager_GenerateRefreshToken tm userId w)
                 (\<lambda>(refreshToken, refreshJTI, refreshTTL) w.
                    let issuedAt = now;
                        expiresAt = issuedAt + refreshTTL;
                        (refreshHash, w) = tokenManager_Sha256Hex tm refreshToken w
                    in andThen
                         (tokenRepo_Create userId refreshJTI refreshHash issuedAt expiresAt w)
                         (\<lambda>_ w. (Inr (userId, accessToken, refreshToken), w))))))))"

definition Login ::
  "PasswordHasher \<Rightarrow> TokenManager \<Rightarrow> time \<Rightarrow> world \<Rightarrow> string \<Rightarrow> string
     \<Rightarrow> (err + (int \<times> string \<times> string)) \<times> world" where
  "Login h tm now w login password =
     (case ValidateLogin login of
        Some e \<Rightarrow> (Inl e, w)
      | None \<Rightarrow>
          (case userRepo_GetByLogin login w of
             (Inl e, w) \<Rightarrow>
               if e = ErrUserNotFound then (Inl ErrInvalidCredentials, w) else (Inl e, w)
           | (Inr au, w) \<Rightarrow>
               (case hasher_CheckPasswordHash h password (PasswordHash au) w of
                  (False, w) \<Rightarrow> (Inl ErrInvalidCredentials, w)
                | (True, w) \<Rightarrow>
                    (let userId = ID au in
                     andThen (tokenManager_GenerateAccessToken tm userId w) (\<lambda>accessToken w.
                     andThen (tokenManager_GenerateRefreshToken tm userId w)
                       (\<lambda>(refreshToken, refreshJTI, refreshTTL) w.
                          let issuedAt = now;
                              expiresAt = issuedAt + refreshTTL;
                              (refreshHash, w) = tokenManager_Sha256Hex tm refreshToken w
                          in andThen
                               (tokenRepo_Create userId refreshJTI refreshHash issuedAt
                                  expiresAt w)
                               (\<lambda>_ w. (Inr (userId, accessToken, refreshToken), w))))))))"

text \<open>
  \<^verbatim>\<open>Refresh\<close>.  \<open>uuid_Parse\<close> is the library's \<^verbatim>\<open>uuid.Parse\<close>; \<open>now\<close> is the service's
  clock after the record was loaded, \<open>dbNow\<close> the database's \<^verbatim>\<open>NOW()\<close> in the rotation.
\<close>

definition Refresh ::
  "(string \<Rightarrow> err + uuid) \<Rightarrow> TokenManager \<Rightarrow> time \<Rightarrow> time \<Rightarrow> world \<Rightarrow> string
     \<Rightarrow> (err + (string \<times> string)) \<times> world" where
  "Refresh uuid_Parse tm now dbNow w incomingRefreshToken =
     andThen (tokenManager_ParseRefreshToken tm incomingRefreshToken w)
       (\<lambda>(userIdStr, jtiStr) w.
          (case ParseInt userIdStr of
             Inl e \<Rightarrow> (Inl e, w)
           | Inr userId \<Rightarrow>
               (case uuid_Parse jtiStr of
                  Inl e \<Rightarrow> (Inl e, w)
                | Inr oldJTI \<Rightarrow>
                    (let (incomingTokenHash, w) =
                           tokenManager_Sha256Hex tm incomingRefreshToken w
                     in (case tokenRepo_GetByJTI oldJTI w of
                           (Inl e, w) \<Rightarrow>
                             if e = ErrTokenDoesntExistsByJTI
                             then (Inl ErrInvalidRefreshCredentials, w)
                             else (Inl e, w)
                         | (Inr tokenRecord, w) \<Rightarrow>
                             (case ValidateToken now userId incomingTokenHash tokenRecord of
                                Some e \<Rightarrow> (Inl ErrInvalidRefreshCredentials, w)
                              | None \<Rightarrow>
                                  andThen (tokenManager_GenerateAccessToken tm userId w)
                                    (\<lambda>accessToken w.
                                  andThen (tokenManager_GenerateRefreshToken tm userId w)
                                    (\<lambda>(newRefreshToken, newJTI, newTTL) w.
                                       let (newHash, w) =
                                             tokenManager_Sha256Hex tm newRefreshToken w
                                       in andThen
                                            (tokenRepo_Rotate dbNow userId oldJTI newJTI
                                               newHash now (now + newTTL) w)
                                            (\<lambda>_ w.
                                               (Inr (accessToken, newRefreshToken), w))))))))))"

subsection \<open>What the HTTP handlers answer to an error of the service\<close>

text \<open>
  The errors built with \<^verbatim>\<open>apperr.NewAuthError\<close> and \<^verbatim>\<open>apperr.NewValidationError\<close>; all
  others come from \<^verbatim>\<open>errors.New\<close> or from a library.  \<open>Error\<close> is the message of an
  error (for a driver error its SQLSTATE stands for the text; the numeric and uuid
  parse errors, whose text quotes the input, are left empty).
\<close>

definition isAuthError :: "err \<Rightarrow> bool" where
  "isAuthError e \<longleftrightarrow>
     e \<in> set [ErrAccessExpiredToken, ErrAccessInvalidSubject, ErrRefreshExpiredToken,
              ErrRefreshInvalidClaims, ErrUnexpectedSigningMethod]"

definition isValidationError :: "err \<Rightarrow> bool" where
  "isValidationError e \<longleftrightarrow>
     e \<in> set [ErrTitleEmpty, ErrTitleLong, ErrCredentialEmptyLogin, ErrCardNumberInvalid,
              ErrCardCVVInvalid, ErrEmptyTextProvided, ErrLoginTooShort, ErrLoginTooLong,
              ErrPasswordTooShort]"

fun Error :: "err \<Rightarrow> string" where
  "Error ErrAccessExpiredToken = ''expired access token''"
| "Error ErrAccessInvalidSubject = ''invalid access subject''"
| "Error ErrRefreshExpiredToken = ''expired refresh token''"
| "Error ErrRefreshInvalidClaims = ''invalid refresh claims''"
| "Error ErrUnexpectedSigningMethod = ''unexpected signing method''"
| "Error ErrLoginTooShort =
     ''login is too short, minimum length '' @ [CHR 0xE2, CHR 0x80, CHR 0x93] @ '' 3''"
| "Error ErrLoginTooLong =
     ''login is too short, maximum length '' @ [CHR 0xE2, CHR 0x80, CHR 0x93] @ '' 64''"
| "Error ErrPasswordTooShort =
     ''password too short, minimum length '' @ [CHR 0xE2, CHR 0x80, CHR 0x93] @ '' 8''"
| "Error ErrTitleEmpty = ''title cannot be empty''"
| "Error ErrTitleLong = ''title cannot be greater than 128 characters''"
| "Error ErrCredentialEmptyLogin = ''login field is required''"
| "Error ErrCardNumberInvalid = ''invalid card number''"
| "Error ErrCardCVVInvalid = ''invalid CVV, should be 3 chars''"
| "Error ErrEmptyTextProvided = ''text field is required''"
| "Error ErrUserNotFound = ''user not found''"
| "Error ErrDuplicateLogin = ''provided login already exists''"
| "Error ErrInvalidCredentials = ''wrong login or password''"
| "Error ErrInvalidRefreshCredentials = ''unregistered refresh token provided''"
| "Error ErrTokenAlreadyRotatedOrExpired = ''token already rotated or expired''"
| "Error ErrTokenDoesntExistsByJTI = ''token doesn't exists by JTI''"
| "Error ErrSecretTooShort = ''secret too short''"
| "Error ErrAEADWrongLength = ''invalid AEAD length, expect 32 bytes''"
| "Error ErrOpen = ''cipher: message authentication failed''"
| "Error ErrEOF = ''EOF''"
| "Error ErrUnexpectedEOF = ''unexpected EOF''"
| "Error ErrNoRows = ''sql: no rows in result set''"
| "Error (LibError m) = m"
| "Error (PqError c) = c"
| "Error (Panic m) = m"
| "Error e = []"

text \<open>
  The status code and the \<^verbatim>\<open>error\<close> text of the response: \<^verbatim>\<open>Handlers.Login\<close> and
  \<^verbatim>\<open>Handlers.Refresh\<close> answer an \<^verbatim>\<open>AuthError\<close> with \<^verbatim>\<open>PublicError(w, 401, err)\<close>,
  \<^verbatim>\<open>Login\<close> a \<^verbatim>\<open>ValidationError\<close> with 400, and every other error with
  \<^verbatim>\<open>InternalError\<close>: status 500 and the text of \<^verbatim>\<open>ErrInternalPublicError\<close>.
\<close>

definition Handlers_Login_error :: "err \<Rightarrow> nat \<times> string" where
  "Handlers_Login_error e =
     (if isAuthError e then (401, Error e)
      else if isValidationError e then (400, Error e)
      else (500, ''Something went wrong..''))"

definition Handlers_Refresh_error :: "err \<Rightarrow> nat \<times> string" where
  "Handlers_Refresh_error e =
     (if isAuthError e then (401, Error e)
      else (500, ''Something went wrong..''))"


section \<open>AES-256 in Galois/Counter Mode\<close>

text \<open>
  \<^verbatim>\<open>AEAD.Encrypt\<close> and \<^verbatim>\<open>AEAD.Decrypt\<close> call \<^verbatim>\<open>aes.NewCipher\<close>, \<^verbatim>\<open>cipher.NewGCM\<close>,
  \<^verbatim>\<open>Seal\<close> and \<^verbatim>\<open>Open\<close> of Go's standard library.  These are the block cipher of
  FIPS 197 and the mode of NIST SP 800-38D with a 12-byte nonce, a 16-byte tag appended
  to the ciphertext and no additional data; they are written out here as the standards
  define them, on bytes (\<open>8 word\<close>) and 128-bit blocks.
\<close>

subsection \<open>The block cipher\<close>

text \<open>
  The S-box as FIPS 197 prints it (Figure 7): the row is the high half of the byte, the
  column the low half.
\<close>

definition sbox0 :: "byte list list" where
  "sbox0 =
    [[0x63, 0x7c, 0x77, 0x7b, 0xf2, 0x6b, 0x6f, 0xc5, 0x30, 0x01, 0x67, 0x2b, 0xfe, 0xd7, 0xab, 0x76],
     [0xca, 0x82, 0xc9, 0x7d, 0xfa, 0x59, 0x47, 0xf0, 0xad, 0xd4, 0xa2, 0xaf, 0x9c, 0xa4, 0x72, 0xc0],
     [0xb7, 0xfd, 0x93, 0x26, 0x36, 0x3f, 0xf7, 0xcc, 0x34, 0xa5, 0xe5, 0xf1, 0x71, 0xd8, 0x31, 0x15],
     [0x04, 0xc7, 0x23, 0xc3, 0x18, 0x96, 0x05, 0x9a, 0x07, 0x12, 0x80, 0xe2, 0xeb, 0x27, 0xb2, 0x75],
     [0x09, 0x83, 0x2c, 0x1a, 0x1b, 0x6e, 0x5a, 0xa0, 0x52, 0x3b, 0xd6, 0xb3, 0x29, 0xe3, 0x2f, 0x84],
     [0x53, 0xd1, 0x00, 0xed, 0x20, 0xfc, 0xb1, 0x5b, 0x6a, 0xcb, 0xbe, 0x39, 0x4a, 0x4c, 0x58, 0xcf],
     [0xd0, 0xef, 0xaa, 0xfb, 0x43, 0x4d, 0x33, 0x85, 0x45, 0xf9, 0x02, 0x7f, 0x50, 0x3c, 0x9f, 0xa8],
     [0x51, 0xa3, 0x40, 0x8f, 0x92, 0x9d, 0x38, 0xf5, 0xbc, 0xb6, 0xda, 0x21, 0x10, 0xff, 0xf3, 0xd2],
     [0xcd, 0x0c, 0x13, 0xec, 0x5f, 0x97, 0x44, 0x17, 0xc4, 0xa7, 0x7e, 0x3d, 0x64, 0x5d, 0x19, 0x73],
     [0x60, 0x81, 0x4f, 0xdc, 0x22, 0x2a, 0x90, 0x88, 0x46, 0xee, 0xb8, 0x14, 0xde, 0x5e, 0x0b, 0xdb],
     [0xe0, 0x32, 0x3a, 0x0a, 0x49, 0x06, 0x24, 0x5c, 0xc2, 0xd3, 0xac, 0x62, 0x91, 0x95, 0xe4, 0x79],
     [0xe7, 0xc8, 0x37, 0x6d, 0x8d, 0xd5, 0x4e, 0xa9, 0x6c, 0x56, 0xf4, 0xea, 0x65, 0x7a, 0xae, 0x08],
     [0xba, 0x78, 0x25, 0x2e, 0x1c, 0xa6, 0xb4, 0xc6, 0xe8, 0xdd, 0x74, 0x1f, 0x4b, 0xbd, 0x8b, 0x8a],
     [0x70, 0x3e, 0xb5, 0x66, 0x48, 0x03, 0xf6, 0x0e, 0x61, 0x35, 0x57, 0xb9, 0x86, 0xc1, 0x1d, 0x9e],
     [0xe1, 0xf8, 0x98, 0x11, 0x69, 0xd9, 0x8e, 0x94, 0x9b, 0x1e, 0x87, 0xe9, 0xce, 0x55, 0x28, 0xdf],
     [0x8c, 0xa1, 0x89, 0x0d, 0xbf, 0xe6, 0x42, 0x68, 0x41, 0x99, 0x2d, 0x0f, 0xb0, 0x54, 0xbb, 0x16]]"

definition subByte :: "byte \<Rightarrow> byte" where
  "subByte b = sbox0 ! unat (drop_bit 4 b) ! unat (b AND 0xF)"

text \<open>Multiplication by \<open>x\<close> in GF(2^8) modulo \<open>x^8 + x^4 + x^3 + x + 1\<close>.\<close>

definition xtime :: "byte \<Rightarrow> byte" where
  "xtime a = (if bit a 7 then push_bit 1 a XOR 0x1b else push_bit 1 a)"

text \<open>The state is the list of its 16 bytes, column after column.\<close>

definition shiftRows :: "byte list \<Rightarrow> byte list" where
  "shiftRows s = map (\<lambda>i. s ! i) [0, 5, 10, 15, 4, 9, 14, 3, 8, 13, 2, 7, 12, 1, 6, 11]"

definition mixColumn :: "byte list \<Rightarrow> byte list" where
  "mixColumn a =
     (let a0 = a ! 0; a1 = a ! 1; a2 = a ! 2; a3 = a ! 3 in
      [xtime a0 XOR (xtime a1 XOR a1) XOR a2 XOR a3,
       a0 XOR xtime a1 XOR (xtime a2 XOR a2) XOR a3,
       a0 XOR a1 XOR xtime a2 XOR (xtime a3 XOR a3),
       (xtime a0 XOR a0) XOR a1 XOR a2 XOR xtime a3])"

primrec chunks :: "nat \<Rightarrow> nat \<Rightarrow> 'a list \<Rightarrow> 'a list list" where
  "chunks n 0 xs = []"
| "chunks n (Suc k) xs = take n xs # chunks n k (drop n xs)"

definition mixColumns :: "byte list \<Rightarrow> byte list" where
  "mixColumns s = concat (map mixColumn (chunks 4 4 s))"

definition addRoundKey :: "byte list \<Rightarrow> byte list \<Rightarrow> byte list" where
  "addRoundKey s k = map2 (XOR) s k"

text \<open>
  The key schedule of FIPS 197 (\<^verbatim>\<open>KeyExpansion\<close>) for a key of \<open>nk\<close> words.  The loop
  makes the words \<open>w[i]\<close> from \<open>i = nk\<close> on; \<open>ws\<close> holds the words \<open>w[0..i-1]\<close> made so
  far, the newest first, so that \<open>w[i-1]\<close> is its head and \<open>w[i-nk]\<close> its element
  \<open>nk - 1\<close>; \<open>j\<close> is \<open>i mod nk\<close> and \<open>n\<close> the number of words still to make.
\<close>

definition keyWord :: "nat \<Rightarrow> nat \<Rightarrow> byte \<Rightarrow> byte list list \<Rightarrow> byte list" where
  "keyWord nk j rcon ws =
     map2 (XOR) (ws ! (nk - 1))
       (if j = 0 then
          (case map subByte (rotate1 (hd ws)) of
             [] \<Rightarrow> []
           | r # rs \<Rightarrow> (r XOR rcon) # rs)
        else if nk > 6 \<and> j = 4 then map subByte (hd ws)
        else hd ws)"

fun expandLoop :: "nat \<Rightarrow> nat \<Rightarrow> nat \<Rightarrow> byte \<Rightarrow> byte list list \<Rightarrow> byte list list" where
  "expandLoop 0 nk j rcon ws = rev ws"
| "expandLoop (Suc n) nk j rcon ws =
     expandLoop n nk (if Suc j = nk then 0 else Suc j)
       (if j = 0 then xtime rcon else rcon) (keyWord nk j rcon ws # ws)"

definition expandKey :: "byte list \<Rightarrow> byte list list" where
  "expandKey key =
     (let nk = length key div 4;
          nr = nk + 6;
          w = expandLoop (4 * (nr + 1) - nk) nk 0 1 (rev (chunks 4 nk key))
      in map concat (chunks 4 (nr + 1) w))"

fun rounds :: "byte list list \<Rightarrow> byte list \<Rightarrow> byte list" where
  "rounds [] s = s"
| "rounds [k] s = addRoundKey (shiftRows (map subByte s)) k"
| "rounds (k # ks) s = rounds ks (addRoundKey (mixColumns (shiftRows (map subByte s))) k)"

definition encryptBlock :: "byte list list \<Rightarrow> byte list \<Rightarrow> byte list" where
  "encryptBlock rk b = (case rk of [] \<Rightarrow> b | k0 # ks \<Rightarrow> rounds ks (addRoundKey b k0))"

text \<open>\<^verbatim>\<open>aes.NewCipher\<close>: the cipher is its expanded key.\<close>

definition aes_NewCipher :: "byte list \<Rightarrow> err + byte list list" where
  "aes_NewCipher key =
     (if length key = 16 \<or> length key = 24 \<or> length key = 32 then Inr (expandKey key)
      else Inl (KeySizeError (length key)))"

subsection \<open>Galois/Counter Mode\<close>

type_synonym block = "128 word"

definition block_of_bytes :: "byte list \<Rightarrow> block" where
  "block_of_bytes bs = foldl (\<lambda>acc b. push_bit 8 acc OR ucast b) 0 (take 16 (bs @ replicate 16 0))"

definition bytes_of_block :: "block \<Rightarrow> byte list" where
  "bytes_of_block x = map (\<lambda>i. ucast (drop_bit (8 * (15 - i)) x)) [0..<16]"

text \<open>\<^verbatim>\<open>Block.Encrypt\<close> of the cipher with the round keys \<open>rk\<close>, on a 128-bit block.\<close>

definition Block_Encrypt :: "byte list list \<Rightarrow> block \<Rightarrow> block" where
  "Block_Encrypt rk x = block_of_bytes (encryptBlock rk (bytes_of_block x))"

text \<open>
  The product in GF(2^128) of SP 800-38D (Algorithm 1): the bits of \<open>x\<close> are taken from
  the left (with \<open>n\<close> steps to go the bit is bit \<open>n - 1\<close> of the word), \<open>v\<close> is shifted to
  the right and reduced by \<open>R = 11100001 || 0^120\<close>.
\<close>

fun gcmMulLoop :: "nat \<Rightarrow> block \<Rightarrow> block \<Rightarrow> block \<Rightarrow> block" where
  "gcmMulLoop 0 x z v = z"
| "gcmMulLoop (Suc n) x z v =
     gcmMulLoop n x
       (if bit x n then z XOR v else z)
       (if bit v 0 then drop_bit 1 v XOR push_bit 120 0xE1 else drop_bit 1 v)"

definition gcmMul :: "block \<Rightarrow> block \<Rightarrow> block" where
  "gcmMul x y = gcmMulLoop 128 x 0 y"

definition ghash :: "block \<Rightarrow> block list \<Rightarrow> block" where
  "ghash h xs = foldl (\<lambda>y x. gcmMul (y XOR x) h) 0 xs"

definition inc32 :: "block \<Rightarrow> block" where
  "inc32 x = (x AND NOT 0xFFFFFFFF) OR ((x + 1) AND 0xFFFFFFFF)"

text \<open>The key stream of \<open>n\<close> blocks from the counter block \<open>cb\<close> on.\<close>

fun keystream :: "byte list list \<Rightarrow> block \<Rightarrow> nat \<Rightarrow> byte list" where
  "keystream rk cb 0 = []"
| "keystream rk cb (Suc n) =
     bytes_of_block (Block_Encrypt rk cb) @ keystream rk (inc32 cb) n"

definition gctr :: "byte list list \<Rightarrow> block \<Rightarrow> byte list \<Rightarrow> byte list" where
  "gctr rk icb xs = map2 (XOR) xs (keystream rk icb ((length xs + 15) div 16))"

text \<open>
  The tag of a ciphertext \<open>c\<close> with no additional data: GHASH under \<open>H = E(0)\<close> of the
  padded ciphertext and the block of the two bit lengths, encrypted with the counter
  block \<open>J0 = nonce || 0^31 || 1\<close>.
\<close>

definition gcmJ0 :: "byte list \<Rightarrow> block" where
  "gcmJ0 nonce = block_of_bytes (nonce @ [0, 0, 0, 1])"

definition gcmTag :: "byte list list \<Rightarrow> byte list \<Rightarrow> byte list \<Rightarrow> byte list" where
  "gcmTag rk nonce c =
     (let h = Block_Encrypt rk 0;
          s = ghash h (map block_of_bytes (chunks 16 ((length c + 15) div 16) c)
                       @ [word_of_nat (8 * length c)])
      in bytes_of_block (s XOR Block_Encrypt rk (gcmJ0 nonce)))"

definition gcmStandardNonceSize :: nat where
  "gcmStandardNonceSize = 12"

definition gcmTagSize :: nat where
  "gcmTagSize = 16"

definition gcm_Seal :: "byte list list \<Rightarrow> byte list \<Rightarrow> byte list \<Rightarrow> err + byte list" where
  "gcm_Seal rk nonce plaintext =
     (if length nonce \<noteq> gcmStandardNonceSize
        then Inl (Panic ''crypto/cipher: incorrect nonce length given to GCM'')
      else if length plaintext > (2 ^ 32 - 2) * 16
        then Inl (Panic ''crypto/cipher: message too large for GCM'')
      else
        let c = gctr rk (inc32 (gcmJ0 nonce)) plaintext
        in Inr (c @ gcmTag rk nonce c))"

definition gcm_Open :: "byte list list \<Rightarrow> byte list \<Rightarrow> byte list \<Rightarrow> err + byte list" where
  "gcm_Open rk nonce ciphertext =
     (if length nonce \<noteq> gcmStandardNonceSize
        then Inl (Panic ''crypto/cipher: incorrect nonce length given to GCM'')
      else if length ciphertext < gcmTagSize then Inl ErrOpen
      else if length ciphertext > (2 ^ 32 - 2) * 16 + gcmTagSize then Inl ErrOpen
      else
        let tag = drop (length ciphertext - gcmTagSize) ciphertext;
            c = take (length ciphertext - gcmTagSize) ciphertext;
            expectedTag = gcmTag rk nonce c
        in if ConstantTimeCompare expectedTag tag \<noteq> 1 then Inl ErrOpen
           else Inr (gctr rk (inc32 (gcmJ0 nonce)) c))"

subsection \<open>AEAD\<close>

text \<open>
  \<^verbatim>\<open>io.ReadFull(rand.Reader, buf)\<close>: \<open>random\<close> is the sequence of bytes the reader
  delivers before it fails; the buffer is filled or the read is an error.
\<close>

definition io_ReadFull :: "byte list \<Rightarrow> nat \<Rightarrow> err + byte list" where
  "io_ReadFull random n =
     (if n \<le> length random then Inr (take n random)
      else if random = [] then Inl ErrEOF
      else Inl ErrUnexpectedEOF)"

record AEAD =
  key :: "byte list"

definition NewAEAD :: "string \<Rightarrow> err + AEAD" where
  "NewAEAD CryptSecretByte =
     (let secretBytes = map of_char CryptSecretByte in
      if length secretBytes \<noteq> 32 then Inl ErrAEADWrongLength
      else Inr \<lparr>key = secretBytes\<rparr>)"

text \<open>
  \<^verbatim>\<open>cipher.NewGCM\<close> fails only for a cipher whose block size is not 16 bytes, which AES
  is not; so it has no error branch here.
\<close>

definition Encrypt :: "AEAD \<Rightarrow> byte list \<Rightarrow> byte list \<Rightarrow> err + (byte list \<times> byte list)" where
  "Encrypt a random plaintext =
     (case aes_NewCipher (key a) of
        Inl e \<Rightarrow> Inl e
      | Inr block \<Rightarrow>
          (case io_ReadFull random gcmStandardNonceSize of
             Inl e \<Rightarrow> Inl e
           | Inr nonce \<Rightarrow>
               (case gcm_Seal block nonce plaintext of
                  Inl e \<Rightarrow> Inl e
                | Inr ciphertext \<Rightarrow> Inr (nonce, ciphertext))))"

definition Decrypt :: "AEAD \<Rightarrow> byte list \<Rightarrow> byte list \<Rightarrow> err + byte list" where
  "Decrypt a nonce ciphertext =
     (case aes_NewCipher (key a) of
        Inl e \<Rightarrow> Inl e
      | Inr block \<Rightarrow>
          (case gcm_Open block nonce ciphertext of
             Inl e \<Rightarrow> Inl e
           | Inr plaintext \<Rightarrow> Inr plaintext))"


section \<open>The keychain\<close>

subsection \<open>KeychainRepository\<close>

text \<open>
  \<^verbatim>\<open>AddKey\<close> draws the key's UUID with \<^verbatim>\<open>uuid.New()\<close> (the argument \<open>keyUUID\<close>) and
  inserts the row; \<open>dbNow\<close> is the database's \<^verbatim>\<open>now()\<close>, the default of both time
  columns.  The Go code hands the UUID on as its canonical text (\<^verbatim>\<open>keyUUID.String()\<close>),
  which names the UUID one to one; here it is the UUID itself.  The title enters the
  column \<^verbatim>\<open>title VARCHAR(128)\<close>.
\<close>

definition KeychainRepository_AddKey ::
  "world \<Rightarrow> uuid \<Rightarrow> time \<Rightarrow> int \<Rightarrow> KeyType \<Rightarrow> string \<Rightarrow> byte list \<Rightarrow> byte list
     \<Rightarrow> (err + uuid) \<times> world" where
  "KeychainRepository_AddKey w keyUUID dbNow userID keyType title data nonce =
     (let newId = keychain_id_seq w + 1;
          w1 = w\<lparr>keychain_id_seq := newId\<rparr>
      in (case varchar 128 title of
            Inl e \<Rightarrow> (Inl e, w1)
          | Inr stored \<Rightarrow>
              if keyUUID \<in> set (map (\<lambda>r. KeyUUID (row r)) (keychain w))
                 \<or> newId \<in> set (map (\<lambda>r. kID (row r)) (keychain w))
              then (Inl (PqError ''23505''), w1)
              else if userID \<notin> set (map ID (users w)) then (Inl (PqError ''23503''), w1)
              else (Inr keyUUID,
                    w1\<lparr>keychain := keychain w @
                      [\<lparr>row = \<lparr>kID = newId, KeyUUID = keyUUID, kUserID = userID,
                               kKeyType = keyType, Title = stored, Data = data,
                               Nonce = nonce, CreatedAt = dbNow, UpdatedAt = dbNow\<rparr>,
                        soft_deleted = False\<rparr>]\<rparr>)))"

definition KeychainRepository_GetUserKey :: "world \<Rightarrow> int \<Rightarrow> uuid \<Rightarrow> err + KeyRecord" where
  "KeychainRepository_GetUserKey w userID keyUUID =
     (case find (\<lambda>r. soft_deleted r = False \<and> KeyUUID (row r) = keyUUID
                      \<and> kUserID (row r) = userID) (keychain w) of
        None \<Rightarrow> Inl ErrNoRows
      | Some r \<Rightarrow> Inr (row r))"

subsection \<open>The payloads and their JSON form\<close>

text \<open>
  The request objects of \<^verbatim>\<open>dto\<close> and the payloads of \<^verbatim>\<open>keychain\<close>; the fields carry the
  initials of their struct.  \<^verbatim>\<open>json.Marshal\<close> of a struct writes its fields in order,
  leaves out a field tagged \<^verbatim>\<open>json:"-"\<close> and an empty string tagged \<^verbatim>\<open>omitempty\<close>, and
  writes a string with the library's escaping, the parameter \<open>enc\<close>.  It cannot fail
  on these structs, so the error branch after it is not there.
\<close>

record AddCredentialsDTO =
  acTitle :: string
  acLogin :: string
  acPassword :: string
  acSite :: string
  acNote :: string

record AddCardDTO =
  akTitle :: string
  akNumber :: string
  akExpDate :: string
  akCVV :: string
  akHolder :: string
  akBank :: string
  akNote :: string

record AddTextDTO =
  atTitle :: string
  atText :: string
  atNote :: string

record AddFileDTO =
  afTitle :: string
  afFile :: "byte list"
  afNote :: string

record CredentialData =
  cdLogin :: string
  cdPassword :: string
  cdSite :: string
  cdNote :: string

record CardData =
  kdNumber :: string
  kdExpDate :: string
  kdCVV :: string
  kdHolder :: string
  kdBank :: string
  kdNote :: string

record TextData =
  tdText :: string
  tdNote :: string

record FileData =
  fdFile :: "byte list"
  fdNote :: string

definition omitempty :: "(string \<Rightarrow> string) \<Rightarrow> string \<Rightarrow> string \<Rightarrow> string" where
  "omitempty enc name v = (if v = [] then [] else name @ enc v)"

definition Marshal_CredentialData :: "(string \<Rightarrow> string) \<Rightarrow> CredentialData \<Rightarrow> byte list" where
  \<open>Marshal_CredentialData enc d =
     map of_char
       (''{"login":'' @ enc (cdLogin d) @ '',"password":'' @ enc (cdPassword d)
        @ omitempty enc '',"site":'' (cdSite d) @ omitempty enc '',"note":'' (cdNote d)
        @ ''}'')\<close>

definition Marshal_CardData :: "(string \<Rightarrow> string) \<Rightarrow> CardData \<Rightarrow> byte list" where
  \<open>Marshal_CardData enc d =
     map of_char
       (''{"number":'' @ enc (kdNumber d) @ '',"exp_date":'' @ enc (kdExpDate d)
        @ '',"cvv":'' @ enc (kdCVV d) @ '',"holder":'' @ enc (kdHolder d)
        @ omitempty enc '',"bank":'' (kdBank d) @ omitempty enc '',"note":'' (kdNote d)
        @ ''}'')\<close>

definition Marshal_TextData :: "(string \<Rightarrow> string) \<Rightarrow> TextData \<Rightarrow> byte list" where
  \<open>Marshal_TextData enc d =
     map of_char
       (''{"text":'' @ enc (tdText d) @ omitempty enc '',"note":'' (tdNote d) @ ''}'')\<close>

text \<open>
  \<^verbatim>\<open>FileData\<close> declares \<^verbatim>\<open>File []byte `json:"-"`\<close>: the only field that is written is
  the note.
\<close>

definition Marshal_FileData :: "(string \<Rightarrow> string) \<Rightarrow> FileData \<Rightarrow> byte list" where
  \<open>Marshal_FileData enc d =
     map of_char (''{'' @ omitempty enc ''"note":'' (fdNote d) @ ''}'')\<close>

subsection \<open>KeychainService\<close>

text \<open>
  The four \<^verbatim>\<open>Add\<close> methods and \<^verbatim>\<open>GetKey\<close>.  \<open>a\<close> is the service's \<^verbatim>\<open>CryptManager\<close>, the
  AEAD of the process; \<open>random\<close> is what \<^verbatim>\<open>rand.Reader\<close> delivers to \<^verbatim>\<open>Encrypt\<close>.
\<close>

definition AddCredential ::
  "(string \<Rightarrow> string) \<Rightarrow> AEAD \<Rightarrow> world \<Rightarrow> uuid \<Rightarrow> time \<Rightarrow> byte list \<Rightarrow> int
     \<Rightarrow> AddCredentialsDTO \<Rightarrow> (err + uuid) \<times> world" where
  "AddCredential enc a w keyUUID dbNow random userID in' =
     (case ValidateTitle (acTitle in') of
        Some e \<Rightarrow> (Inl e, w)
      | None \<Rightarrow>
          (case ValidateCredential (acLogin in') of
             Some e \<Rightarrow> (Inl e, w)
           | None \<Rightarrow>
               (let data = \<lparr>cdLogin = acLogin in', cdPassword = acPassword in',
                            cdSite = acSite in', cdNote = acNote in'\<rparr>;
                    plain = Marshal_CredentialData enc data
                in (case Encrypt a random plain of
                      Inl e \<Rightarrow> (Inl e, w)
                    | Inr (nonce, ct) \<Rightarrow>
                        KeychainRepository_AddKey w keyUUID dbNow userID KeyCredential
                          (acTitle in') ct nonce))))"

definition AddCard ::
  "(string \<Rightarrow> string) \<Rightarrow> AEAD \<Rightarrow> world \<Rightarrow> uuid \<Rightarrow> time \<Rightarrow> byte list \<Rightarrow> int
     \<Rightarrow> AddCardDTO \<Rightarrow> (err + uuid) \<times> world" where
  "AddCard enc a w keyUUID dbNow random userID in' =
     (case ValidateTitle (akTitle in') of
        Some e \<Rightarrow> (Inl e, w)
      | None \<Rightarrow>
          (case ValidateCard (akNumber in') (akCVV in') of
             Some e \<Rightarrow> (Inl e, w)
           | None \<Rightarrow>
               (let data = \<lparr>kdNumber = akNumber in', kdExpDate = akExpDate in',
                            kdCVV = akCVV in', kdHolder = akHolder in',
                            kdBank = akBank in', kdNote = akNote in'\<rparr>;
                    plain = Marshal_CardData enc data
                in (case Encrypt a random plain of
                      Inl e \<Rightarrow> (Inl e, w)
                    | Inr (nonce, ct) \<Rightarrow>
                        KeychainRepository_AddKey w keyUUID dbNow userID KeyBankCard
                          (akTitle in') ct nonce))))"

definition AddText ::
  "(string \<Rightarrow> string) \<Rightarrow> AEAD \<Rightarrow> world \<Rightarrow> uuid \<Rightarrow> time \<Rightarrow> byte list \<Rightarrow> int
     \<Rightarrow> AddTextDTO \<Rightarrow> (err + uuid) \<times> world" where
  "AddText enc a w keyUUID dbNow random userID in' =
     (case ValidateTitle (atTitle in') of
        Some e \<Rightarrow> (Inl e, w)
      | None \<Rightarrow>
          (case ValidateText (atText in') of
             Some e \<Rightarrow> (Inl e, w)
           | None \<Rightarrow>
               (let data = \<lparr>tdText = atText in', tdNote = atNote in'\<rparr>;
                    plain = Marshal_TextData enc data
                in (case Encrypt a random plain of
                      Inl e \<Rightarrow> (Inl e, w)
                    | Inr (nonce, ct) \<Rightarrow>
                        KeychainRepository_AddKey w keyUUID dbNow userID KeyText
                          (atTitle in') ct nonce))))"

definition AddFile ::
  "(string \<Rightarrow> string) \<Rightarrow> AEAD \<Rightarrow> world \<Rightarrow> uuid \<Rightarrow> time \<Rightarrow> byte list \<Rightarrow> int
     \<Rightarrow> AddFileDTO \<Rightarrow> (err + uuid) \<times> world" where
  "AddFile enc a w keyUUID dbNow random userID in' =
     (case ValidateTitle (afTitle in') of
        Some e \<Rightarrow> (Inl e, w)
      | None \<Rightarrow>
          (let data = \<lparr>fdFile = afFile in', fdNote = afNote in'\<rparr>;
               plain = Marshal_FileData enc data
           in (case Encrypt a random plain of
                 Inl e \<Rightarrow> (Inl e, w)
               | Inr (nonce, ct) \<Rightarrow>
                   KeychainRepository_AddKey w keyUUID dbNow userID KeyFile
                     (afTitle in') ct nonce)))"

definition GetKey :: "AEAD \<Rightarrow> world \<Rightarrow> int \<Rightarrow> uuid \<Rightarrow> err + (KeyRecord \<times> byte list)" where
  "GetKey a w userID keyUUID =
     (case KeychainRepository_GetUserKey w userID keyUUID of
        Inl e \<Rightarrow> Inl e
      | Inr keyRecord \<Rightarrow>
          (case Decrypt a (Nonce keyRecord) (Data keyRecord) of
             Inl e \<Rightarrow> Inl e
           | Inr decryptedData \<Rightarrow> Inr (keyRecord, decryptedData)))"


section \<open>The specification's words, and example values\<close>

text \<open>
  The Luhn check as the specification words it: spaces are stripped; any other character
  that is not one of the ten digits makes the number invalid; the digits are read from
  the right, every second one is doubled, and 9 is taken off a doubled value above 9;
  the number is valid iff the sum is a multiple of 10.
\<close>

definition luhnDigit :: "nat \<Rightarrow> int \<Rightarrow> int" where
  "luhnDigit i d = (if odd i then (if 2 * d > 9 then 2 * d - 9 else 2 * d) else d)"

definition luhn_spec :: "string \<Rightarrow> bool" where
  "luhn_spec number =
     (let ds = filter (\<lambda>c. c \<noteq> CHR '' '') number in
      list_all (\<lambda>c. c \<in> set ''0123456789'') ds \<and>
      sum_list (map (\<lambda>(i, c). luhnDigit i (of_char c - of_char CHR ''0''))
                    (enumerate 0 (rev ds))) mod 10 = 0)"

text \<open>
  The key constraints of \<^verbatim>\<open>auth_refresh_tokens\<close>, which every state of the table
  satisfies: \<^verbatim>\<open>jti\<close> is the primary key and \<^verbatim>\<open>user_id\<close> references a user.
\<close>

definition ledger_ok :: "world \<Rightarrow> bool" where
  "ledger_ok w \<longleftrightarrow>
     distinct (map JTI (auth_refresh_tokens w)) \<and>
     list_all (\<lambda>r. UserID r \<in> set (map ID (users w))) (auth_refresh_tokens w)"

text \<open>
  A small world for concrete runs: the user \<open>alice\<close> with two refresh tokens, the first
  of which may have been rotated already; a token manager whose parser accepts one token;
  the AEAD with the key of the configuration's default.
\<close>

definition demo_ParseWithClaims :: "string \<Rightarrow> err + (Claims \<times> bool)" where
  "demo_ParseWithClaims tokenStr =
     (if tokenStr = ''header.claims.signature''
      then Inr (\<lparr>Subject = ''1'', ClaimsID = ''00000000-0000-0000-0000-000000000007''\<rparr>, True)
      else Inl (LibError ''token signature is invalid''))"

definition demo_uuid_Parse :: "string \<Rightarrow> err + uuid" where
  "demo_uuid_Parse s =
     (if s = ''00000000-0000-0000-0000-000000000007'' then Inr 7 else Inl ErrInvalidUUID)"

definition demo_tm :: TokenManager where
  "demo_tm =
     \<lparr>GenerateRefreshToken = (\<lambda>userID. Inr (''header.claims2.signature2'', 9, 1000)),
      ParseRefreshToken = JWTManager_ParseRefreshToken demo_ParseWithClaims,
      GenerateAccessToken = (\<lambda>userID. Inr ''header.access.signature''),
      Sha256Hex = (\<lambda>s. ''sha256:'' @ s)\<rparr>"

definition demo_hasher :: PasswordHasher where
  "demo_hasher =
     \<lparr>HashPassword = (\<lambda>password. Inr (''$2a$10$'' @ password)),
      CheckPasswordHash = (\<lambda>password hash. hash = ''$2a$10$'' @ password)\<rparr>"

definition demo_world :: "uuid option \<Rightarrow> world" where
  "demo_world replaced =
     \<lparr>users = [\<lparr>ID = 1, Login = ''alice'', PasswordHash = ''$2a$10$password1''\<rparr>],
      users_id_seq = 1,
      auth_refresh_tokens =
        [\<lparr>JTI = 7, UserID = 1, TokenHash = ''sha256:header.claims.signature'',
          IssuedAt = 0, ExpiresAt = 100, ReplacedBy = replaced\<rparr>,
         \<lparr>JTI = 8, UserID = 1, TokenHash = ''sha256:header.claims1.signature1'',
          IssuedAt = 10, ExpiresAt = 110, ReplacedBy = None\<rparr>],
      keychain = [],
      keychain_id_seq = 0,
      trace = []\<rparr>"

definition demo_aead :: AEAD where
  "demo_aead = \<lparr>key = map of_char ''12345678901234567890123456789012''\<rparr>"

definition demo_random :: "byte list" where
  "demo_random = [1, 2, 3, 4, 5, 6, 7, 8, 9, 10, 11, 12]"



section \<open>Properties of the validators\<close>

lemma IsDigit_iff: "IsDigit c \<longleftrightarrow> c \<in> set ''0123456789''"
proof -
  have e: "\<And>d. (c = d) = ((of_char c :: nat) = of_char d)"
    by (simp add: of_char_eq_iff)
  have "c \<in> set ''0123456789'' \<longleftrightarrow>
        (of_char c :: nat) \<in> {48, 49, 50, 51, 52, 53, 54, 55, 56, 57}"
    by (simp add: e)
  also have "\<dots> \<longleftrightarrow> 48 \<le> (of_char c :: nat) \<and> (of_char c :: nat) \<le> 57"
    by (simp only: insert_iff empty_iff) arith
  finally show ?thesis by (simp add: IsDigit_def)
qed

lemma luhnLoop_spec:
  "double = odd k \<Longrightarrow>
   luhnLoop xs acc double \<longleftrightarrow>
     list_all IsDigit xs \<and>
     (acc + sum_list (map (\<lambda>(i, c). luhnDigit i (of_char c - 48)) (enumerate k xs))) mod 10 = 0"
proof (induction xs arbitrary: acc k double)
  case Nil
  then show ?case by simp
next
  case (Cons r rest)
  have "(\<not> double) = odd (Suc k)" using Cons.prems by simp
  from Cons.IH [OF this] show ?case
    using Cons.prems by (auto simp: luhnDigit_def Let_def ac_simps)
qed

lemma isValidLuhn_spec: "isValidLuhn number = luhn_spec number"
  unfolding isValidLuhn_def luhn_spec_def ReplaceAll_space_def
  by (simp add: luhnLoop_spec [where k = 0] Let_def IsDigit_iff [abs_def] list_all_iff)

lemma leadingSpace_space: "leadingSpace (CHR '' '' # s) = 1"
  by (simp add: leadingSpace_def spaceEncodings_def)

lemma TrimLeft_spaces: "set s \<subseteq> {CHR '' ''} \<Longrightarrow> TrimLeft s = []"
proof (induction s)
  case Nil
  show ?case by (simp add: TrimLeft.simps [of "[]"] leadingSpace_def spaceEncodings_def)
next
  case (Cons c s)
  then have "c = CHR '' ''" by simp
  with Cons show ?case by (simp add: TrimLeft.simps [of "CHR '' '' # s"] leadingSpace_space)
qed

lemma TrimRight_Nil: "TrimRight [] = []"
  by (simp add: TrimRight.simps [of "[]"] trailingSpace_def spaceEncodings_def)

lemma TrimSpace_spaces: "set s \<subseteq> {CHR '' ''} \<Longrightarrow> TrimSpace s = []"
  by (simp add: TrimSpace_def TrimLeft_spaces TrimRight_Nil)

lemma TrimSpace_id: "leadingSpace s = 0 \<Longrightarrow> trailingSpace s = 0 \<Longrightarrow> TrimSpace s = s"
  by (simp add: TrimSpace_def TrimLeft.simps [of s] TrimRight.simps [of s])

lemma isValidLuhn_spaces: "set s \<subseteq> {CHR '' ''} \<Longrightarrow> isValidLuhn s"
proof -
  assume "set s \<subseteq> {CHR '' ''}"
  then have "filter (\<lambda>c. c \<noteq> CHR '' '') s = []" by (auto simp: filter_empty_conv)
  then show ?thesis by (simp add: isValidLuhn_def ReplaceAll_space_def)
qed

text \<open>
  C7, as the claim states it, fails: \<^verbatim>\<open>ValidateCard\<close> accepts the number
  \<^verbatim>\<open>"\t4716532755237178\n"\<close>, in which a tab and a newline remain when the spaces are
  stripped.  The Luhn check of the specification, and \<^verbatim>\<open>isValidLuhn\<close> itself, refuse
  that number for its non-digit characters.
\<close>

theorem ValidateCard_counterexample:
  "ReplaceAll_space (CHR 0x09 # ''4716532755237178'' @ [CHR 0x0A]) =
     CHR 0x09 # ''4716532755237178'' @ [CHR 0x0A] \<and>
   \<not> IsDigit (CHR 0x09) \<and> \<not> IsDigit (CHR 0x0A) \<and>
   ValidateCard (CHR 0x09 # ''4716532755237178'' @ [CHR 0x0A]) ''123'' = None \<and>
   \<not> luhn_spec (CHR 0x09 # ''4716532755237178'' @ [CHR 0x0A]) \<and>
   \<not> isValidLuhn (CHR 0x09 # ''4716532755237178'' @ [CHR 0x0A])"
proof (intro conjI)
  show "ReplaceAll_space (CHR 0x09 # ''4716532755237178'' @ [CHR 0x0A]) =
     CHR 0x09 # ''4716532755237178'' @ [CHR 0x0A]"
    by code_simp
  show "\<not> IsDigit (CHR 0x09)" by code_simp
  show "\<not> IsDigit (CHR 0x0A)" by code_simp
  show "ValidateCard (CHR 0x09 # ''4716532755237178'' @ [CHR 0x0A]) ''123'' = None"
    by code_simp
  show n: "\<not> isValidLuhn (CHR 0x09 # ''4716532755237178'' @ [CHR 0x0A])"
    by code_simp
  then show "\<not> luhn_spec (CHR 0x09 # ''4716532755237178'' @ [CHR 0x0A])"
    by (simp add: isValidLuhn_spec)
qed

text \<open>
  C7, amended.  \<^verbatim>\<open>ValidateCard\<close> first trims the white space that surrounds the number
  (spaces, tabs, newlines and the other white space of Unicode).  On the trimmed number
  its check is the Luhn checksum of the specification: \<^verbatim>\<open>isValidLuhn\<close> agrees with
  \<open>luhn_spec\<close> on every string, and \<^verbatim>\<open>ValidateCard\<close> reports an invalid number exactly
  when the trimmed number fails \<open>luhn_spec\<close>; the number 4716532755237178 is accepted and
  1234567890 is rejected.
\<close>

theorem ValidateCard_luhn_amended:
  "isValidLuhn number = luhn_spec number \<and>
   (ValidateCard num cvv = Some ErrCardNumberInvalid) = (\<not> luhn_spec (TrimSpace num)) \<and>
   isValidLuhn ''4716532755237178'' \<and>
   ValidateCard ''4716532755237178'' ''123'' = None \<and>
   \<not> isValidLuhn ''1234567890'' \<and>
   ValidateCard ''1234567890'' cvv = Some ErrCardNumberInvalid"
proof (intro conjI)
  show "isValidLuhn number = luhn_spec number" by (rule isValidLuhn_spec)
  show "(ValidateCard num cvv = Some ErrCardNumberInvalid) = (\<not> luhn_spec (TrimSpace num))"
    by (simp add: ValidateCard_def Let_def isValidLuhn_spec)
  show "isValidLuhn ''4716532755237178''" by code_simp
  show "ValidateCard ''4716532755237178'' ''123'' = None" by code_simp
  show n: "\<not> isValidLuhn ''1234567890''" by code_simp
  have "TrimSpace ''1234567890'' = ''1234567890''" by code_simp
  with n show "ValidateCard ''1234567890'' cvv = Some ErrCardNumberInvalid"
    by (simp add: ValidateCard_def)
qed

lemma RuneCount_le_length: "RuneCount s \<le> length s"
proof (induction s rule: RuneCount.induct)
  case (1 s)
  show ?case
  proof (cases "s = []")
    case True
    then show ?thesis by (simp add: RuneCount.simps)
  next
    case False
    then have "0 < runeWidth s" by (rule runeWidth_pos)
    moreover from False have "0 < length s" by simp
    moreover from 1 [OF False]
    have "RuneCount (drop (runeWidth s) s) \<le> length s - runeWidth s" by simp
    ultimately have "Suc (RuneCount (drop (runeWidth s) s)) \<le> length s" by arith
    with False show ?thesis
      by (subst RuneCount.simps) (simp only: if_False)
  qed
qed

lemma RuneCount_ASCII: "isASCII s \<Longrightarrow> RuneCount s = length s"
proof (induction s)
  case Nil
  show ?case by (simp add: RuneCount.simps)
next
  case (Cons c s)
  then have "runeWidth (c # s) = 1" by (simp add: runeWidth_def isASCII_def)
  with Cons show ?case
    by (subst RuneCount.simps) (simp add: isASCII_def)
qed

text \<open>
  C8, as the claim states it, fails: a string of 129 spaces has 129 characters, and
  \<^verbatim>\<open>ValidateTitle\<close> answers \<^verbatim>\<open>ErrTitleEmpty\<close> for it, not \<^verbatim>\<open>ErrTitleLong\<close>.
\<close>

theorem ValidateTitle_counterexample:
  "length (replicate 129 CHR '' '') = 129 \<and>
   RuneCount (replicate 129 CHR '' '') = 129 \<and>
   ValidateTitle (replicate 129 CHR '' '') = Some ErrTitleEmpty \<and>
   ValidateTitle (replicate 129 CHR '' '') \<noteq> Some ErrTitleLong"
proof -
  have "TrimSpace (replicate 129 CHR '' '') = []"
    by (rule TrimSpace_spaces) simp
  moreover have "RuneCount (replicate 129 CHR '' '') = length (replicate 129 CHR '' '')"
    by (rule RuneCount_ASCII) (simp add: isASCII_def list_all_iff)
  ultimately show ?thesis by (simp add: ValidateTitle_def)
qed

text \<open>
  C8, amended.  \<^verbatim>\<open>ValidateTitle\<close> trims the surrounding white space and then fails with
  \<^verbatim>\<open>ErrTitleEmpty\<close> iff the trimmed title is empty.  It fails with \<^verbatim>\<open>ErrTitleLong\<close>
  whenever the trimmed title is longer than 128 characters, and only for a title that is
  not blank; when it succeeds, the trimmed title is not empty and has at most 128
  characters.  For a title whose trimmed form consists of ASCII characters it fails with
  \<^verbatim>\<open>ErrTitleLong\<close> iff the trimmed title is longer than 128 characters, and succeeds
  otherwise.  The empty string yields \<^verbatim>\<open>ErrTitleEmpty\<close>; a string whose trimmed form has
  129 characters, so every string of 129 characters that neither starts nor ends with
  white space, yields \<^verbatim>\<open>ErrTitleLong\<close>; \<^verbatim>\<open>"My Card"\<close> is valid.

  Nothing is said here of a title of at most 128 characters that holds characters of
  more than one byte: \<^verbatim>\<open>len(t) > 128\<close> counts bytes where the comment of the function,
  the text of the error and the column \<^verbatim>\<open>VARCHAR(128)\<close> count characters.
\<close>

theorem ValidateTitle_amended:
  "(ValidateTitle title = Some ErrTitleEmpty) = (TrimSpace title = []) \<and>
   (128 < RuneCount (TrimSpace title) \<longrightarrow> ValidateTitle title = Some ErrTitleLong) \<and>
   (ValidateTitle title = Some ErrTitleLong \<longrightarrow> TrimSpace title \<noteq> []) \<and>
   (ValidateTitle title = None \<longrightarrow>
      TrimSpace title \<noteq> [] \<and> RuneCount (TrimSpace title) \<le> 128) \<and>
   (isASCII (TrimSpace title) \<longrightarrow>
      (ValidateTitle title = Some ErrTitleLong) = (128 < RuneCount (TrimSpace title)) \<and>
      (ValidateTitle title = None) =
        (TrimSpace title \<noteq> [] \<and> RuneCount (TrimSpace title) \<le> 128)) \<and>
   ValidateTitle [] = Some ErrTitleEmpty \<and>
   (RuneCount (TrimSpace title) = 129 \<longrightarrow> ValidateTitle title = Some ErrTitleLong) \<and>
   (RuneCount title = 129 \<and> leadingSpace title = 0 \<and> trailingSpace title = 0 \<longrightarrow>
      ValidateTitle title = Some ErrTitleLong) \<and>
   ValidateTitle ''My Card'' = None"
proof -
  let ?t = "TrimSpace title"
  have le: "RuneCount ?t \<le> length ?t" by (rule RuneCount_le_length)
  have e: "(ValidateTitle title = Some ErrTitleEmpty) = (?t = [])"
    by (auto simp: ValidateTitle_def Let_def)
  have l: "(ValidateTitle title = Some ErrTitleLong) = (128 < length ?t)"
    by (auto simp: ValidateTitle_def Let_def)
  have n: "(ValidateTitle title = None) = (?t \<noteq> [] \<and> length ?t \<le> 128)"
    by (auto simp: ValidateTitle_def Let_def)
  have long: "ValidateTitle title = Some ErrTitleLong" if "128 < RuneCount ?t"
    using that le l by simp
  have a: "ValidateTitle [] = Some ErrTitleEmpty" by code_simp
  have b: "ValidateTitle ''My Card'' = None" by code_simp
  have c: "ValidateTitle title = Some ErrTitleLong"
    if "RuneCount title = 129 \<and> leadingSpace title = 0 \<and> trailingSpace title = 0"
  proof -
    from that have "TrimSpace title = title" by (simp add: TrimSpace_id)
    with that long show ?thesis by simp
  qed
  have asc: "(ValidateTitle title = Some ErrTitleLong) = (128 < RuneCount ?t) \<and>
      (ValidateTitle title = None) = (?t \<noteq> [] \<and> RuneCount ?t \<le> 128)"
    if "isASCII ?t"
    using RuneCount_ASCII [OF that] l n by simp
  from e l n le long a b c asc show ?thesis by auto
qed

theorem ValidateTitle_amended_witness:
  "RuneCount (replicate 129 CHR ''a'') = 129 \<and>
   leadingSpace (replicate 129 CHR ''a'') = 0 \<and>
   trailingSpace (replicate 129 CHR ''a'') = 0 \<and>
   isASCII (TrimSpace (replicate 129 CHR ''a'')) \<and>
   RuneCount (TrimSpace (replicate 129 CHR ''a'')) = 129 \<and>
   ValidateTitle (replicate 129 CHR ''a'') = Some ErrTitleLong \<and>
   isASCII (TrimSpace '' My Card '') \<and>
   TrimSpace '' My Card '' \<noteq> [] \<and> RuneCount (TrimSpace '' My Card '') \<le> 128 \<and>
   ValidateTitle '' My Card '' = None"
proof -
  let ?s = "replicate 129 CHR ''a''"
  have i: "isASCII ?s" by (simp add: isASCII_def list_all_iff)
  have a: "leadingSpace ?s = 0" by code_simp
  have b: "trailingSpace ?s = 0" by code_simp
  have t: "TrimSpace ?s = ?s" using a b by (simp add: TrimSpace_id)
  have r: "RuneCount ?s = 129" using RuneCount_ASCII [OF i] by simp
  have m: "TrimSpace '' My Card '' = ''My Card''" by code_simp
  have mi: "isASCII ''My Card''" by code_simp
  have mr: "RuneCount ''My Card'' \<le> 128" by code_simp
  from ValidateTitle_amended [of ?s] ValidateTitle_amended [of "'' My Card ''"]
    i a b r mi mr
  show ?thesis unfolding t m by simp
qed

text \<open>
  C9.  \<^verbatim>\<open>isValidLuhn\<close> returns true for the empty number and for every number that
  consists of spaces only; so \<^verbatim>\<open>ValidateCard\<close> accepts such a number whenever the
  trimmed CVV has exactly 3 bytes, whatever they are: the empty number with the CVV
  \<^verbatim>\<open>"abc"\<close> is accepted.
\<close>

theorem ValidateCard_empty_number:
  "isValidLuhn [] \<and>
   (set num \<subseteq> {CHR '' ''} \<longrightarrow> isValidLuhn num) \<and>
   (set num \<subseteq> {CHR '' ''} \<longrightarrow>
      (ValidateCard num cvv = None) = (length (TrimSpace cvv) = 3)) \<and>
   (ValidateCard [] cvv = None) = (length (TrimSpace cvv) = 3) \<and>
   ValidateCard [] ''abc'' = None"
proof (intro conjI impI)
  show e: "isValidLuhn []" by (simp add: isValidLuhn_def ReplaceAll_space_def)
  show "isValidLuhn num" if "set num \<subseteq> {CHR '' ''}"
    using that by (rule isValidLuhn_spaces)
  show "(ValidateCard num cvv = None) = (length (TrimSpace cvv) = 3)"
    if "set num \<subseteq> {CHR '' ''}"
    using that e by (simp add: ValidateCard_def TrimSpace_spaces)
  have "TrimSpace [] = []" by (rule TrimSpace_spaces) simp
  with e show "(ValidateCard [] cvv = None) = (length (TrimSpace cvv) = 3)"
    by (simp add: ValidateCard_def)
  show "ValidateCard [] ''abc'' = None" by code_simp
qed

theorem ValidateCard_empty_number_witness:
  "set ''   '' \<subseteq> {CHR '' ''} \<and> isValidLuhn ''   '' \<and>
   length (TrimSpace '' x9z '') = 3 \<and> ValidateCard ''   '' '' x9z '' = None"
proof -
  have s: "set ''   '' \<subseteq> {CHR '' ''}" by simp
  have t: "length (TrimSpace '' x9z '') = 3" by code_simp
  from ValidateCard_empty_number [of "''   ''" "'' x9z ''"] s t
  show ?thesis by blast
qed


section \<open>Properties of the token ledger\<close>

lemma filter_unique:
  "distinct (map f xs) \<Longrightarrow> x \<in> set xs \<Longrightarrow> length (filter (\<lambda>y. f y = f x) xs) = 1"
proof (induction xs)
  case Nil
  then show ?case by simp
next
  case (Cons a xs)
  show ?case
  proof (cases "a = x")
    case True
    have "f x \<notin> f ` set xs" using Cons.prems(1) True by simp
    then have "\<forall>y \<in> set xs. f y \<noteq> f x" by (metis imageI)
    then have "filter (\<lambda>y. f y = f x) xs = []" by (simp add: filter_empty_conv)
    with True show ?thesis by simp
  next
    case False
    with Cons.prems have "x \<in> set xs" by simp
    moreover from this Cons.prems(1) have "f a \<noteq> f x" by auto
    ultimately show ?thesis using Cons by simp
  qed
qed

lemma Rotate_not_active:
  assumes "\<not> (\<exists>r \<in> set (auth_refresh_tokens w).
              JTI r = oldJTI \<and> UserID r = userID \<and> ReplacedBy r = None \<and> dbNow < ExpiresAt r)"
  shows "TokensRepository_Rotate w dbNow userID oldJTI newJTI newHash ia ea =
           (Some ErrTokenAlreadyRotatedOrExpired, w)"
proof -
  have "filter (queryUpdate_where dbNow oldJTI userID) (auth_refresh_tokens w) = []"
    using assms by (auto simp: filter_empty_conv queryUpdate_where_def)
  then show ?thesis
    by (simp add: TokensRepository_Rotate_def queryUpdate_def)
qed

lemma Rotate_active:
  assumes ok: "ledger_ok w"
    and r: "r \<in> set (auth_refresh_tokens w)" "JTI r = oldJTI" "UserID r = userID"
           "ReplacedBy r = None" "dbNow < ExpiresAt r"
  shows "TokensRepository_Rotate w dbNow userID oldJTI newJTI newHash ia ea =
           (if newJTI \<in> JTI ` set (auth_refresh_tokens w) then (Some (PqError ''23505''), w)
            else (None, w\<lparr>auth_refresh_tokens :=
                    map (\<lambda>r. if JTI r = oldJTI then r\<lparr>ReplacedBy := Some newJTI\<rparr> else r)
                        (auth_refresh_tokens w) @
                    [\<lparr>JTI = newJTI, UserID = userID, TokenHash = newHash,
                      IssuedAt = ia, ExpiresAt = ea, ReplacedBy = None\<rparr>]\<rparr>))"
proof -
  let ?ts = "auth_refresh_tokens w"
  from ok have d: "distinct (map JTI ?ts)" by (simp add: ledger_ok_def)
  have same: "queryUpdate_where dbNow oldJTI userID x \<longleftrightarrow> JTI x = oldJTI" if "x \<in> set ?ts" for x
  proof
    assume "JTI x = oldJTI"
    with d r(1,2) that have "x = r" by (metis distinct_map inj_on_def)
    with r show "queryUpdate_where dbNow oldJTI userID x" by (simp add: queryUpdate_where_def)
  qed (simp add: queryUpdate_where_def)
  have f: "filter (queryUpdate_where dbNow oldJTI userID) ?ts = filter (\<lambda>y. JTI y = JTI r) ?ts"
    using same r(2) by (auto intro: filter_cong)
  have aff: "length (filter (queryUpdate_where dbNow oldJTI userID) ?ts) = 1"
    unfolding f using d r(1) by (rule filter_unique)
  have m: "map (\<lambda>x. if queryUpdate_where dbNow oldJTI userID x
                      then x\<lparr>ReplacedBy := Some newJTI\<rparr> else x) ?ts =
           map (\<lambda>x. if JTI x = oldJTI then x\<lparr>ReplacedBy := Some newJTI\<rparr> else x) ?ts"
    using same by (auto intro: map_cong)
  define tx where "tx = w\<lparr>auth_refresh_tokens :=
      map (\<lambda>x. if JTI x = oldJTI then x\<lparr>ReplacedBy := Some newJTI\<rparr> else x) ?ts\<rparr>"
  have qu: "queryUpdate w dbNow newJTI oldJTI userID = (1, tx)"
    by (simp only: queryUpdate_def aff m tx_def)
  have "map JTI (auth_refresh_tokens tx) = map JTI ?ts"
    by (simp add: tx_def comp_def if_distrib cong: if_cong)
  then have jt: "newJTI \<in> set (map JTI (auth_refresh_tokens tx)) \<longleftrightarrow> newJTI \<in> JTI ` set ?ts"
    by simp
  have u: "userID \<in> set (map ID (users tx))"
    using ok r(1,3) by (auto simp: ledger_ok_def list_all_iff tx_def)
  have qi: "queryInsert tx userID newJTI newHash ia ea =
      (if newJTI \<in> JTI ` set ?ts then Inl (PqError ''23505'')
       else Inr (tx\<lparr>auth_refresh_tokens := auth_refresh_tokens tx @
                 [\<lparr>JTI = newJTI, UserID = userID, TokenHash = newHash,
                   IssuedAt = ia, ExpiresAt = ea, ReplacedBy = None\<rparr>]\<rparr>))"
    by (simp only: queryInsert_def jt u) simp
  show ?thesis
    by (simp add: TokensRepository_Rotate_def qu qi) (simp add: tx_def)
qed

text \<open>
  C2, as the claim states it, fails: in the example ledger the record of jti 7 belongs
  to user 1, is not replaced and expires after the clock's 50; a \<^verbatim>\<open>Rotate\<close> from 7 to
  the jti 8, which the ledger holds already, updates one row, fails in the insert on
  the primary key, is rolled back and returns the driver's error: the record's
  \<^verbatim>\<open>replaced_by\<close> is not set and no record is inserted.
\<close>

theorem Rotate_counterexample:
  "(\<exists>r \<in> set (auth_refresh_tokens (demo_world None)).
      JTI r = 7 \<and> UserID r = 1 \<and> ReplacedBy r = None \<and> 50 < ExpiresAt r) \<and>
   TokensRepository_Rotate (demo_world None) 50 1 7 8 ''sha256:new'' 50 150 =
     (Some (PqError ''23505''), demo_world None)"
  by (simp add: demo_world_def TokensRepository_Rotate_def queryUpdate_def queryInsert_def
        queryUpdate_where_def)

text \<open>
  C2, amended.  On a ledger that satisfies its key constraints, for every call of
  \<^verbatim>\<open>Rotate\<close>: if the record of \<open>oldJTI\<close> belongs to \<open>userID\<close>, has no \<^verbatim>\<open>replaced_by\<close> and
  expires after the database's \<^verbatim>\<open>NOW()\<close>, then, when \<open>newJTI\<close> is not yet a jti of the
  ledger, \<^verbatim>\<open>Rotate\<close> sets that record's \<^verbatim>\<open>replaced_by\<close> to \<open>newJTI\<close>, inserts the new
  record and returns no error, and when \<open>newJTI\<close> is a jti of the ledger already, it
  returns the driver's unique-violation error and leaves the ledger as it was; in every
  other case (already replaced, expired, absent, another user's) it returns
  \<^verbatim>\<open>ErrTokenAlreadyRotatedOrExpired\<close> and leaves the ledger as it was.
\<close>

theorem Rotate_amended:
  assumes "ledger_ok w"
  shows "TokensRepository_Rotate w dbNow userID oldJTI newJTI newHash newIssuedAt newExpiresAt =
     (if \<exists>r \<in> set (auth_refresh_tokens w).
            JTI r = oldJTI \<and> UserID r = userID \<and> ReplacedBy r = None \<and> dbNow < ExpiresAt r
      then
        if newJTI \<in> JTI ` set (auth_refresh_tokens w) then (Some (PqError ''23505''), w)
        else (None,
              w\<lparr>auth_refresh_tokens :=
                  map (\<lambda>r. if JTI r = oldJTI then r\<lparr>ReplacedBy := Some newJTI\<rparr> else r)
                      (auth_refresh_tokens w) @
                  [\<lparr>JTI = newJTI, UserID = userID, TokenHash = newHash,
                    IssuedAt = newIssuedAt, ExpiresAt = newExpiresAt, ReplacedBy = None\<rparr>]\<rparr>)
      else (Some ErrTokenAlreadyRotatedOrExpired, w))"
proof (cases "\<exists>r \<in> set (auth_refresh_tokens w).
            JTI r = oldJTI \<and> UserID r = userID \<and> ReplacedBy r = None \<and> dbNow < ExpiresAt r")
  case True
  then obtain r where "r \<in> set (auth_refresh_tokens w)" "JTI r = oldJTI" "UserID r = userID"
      "ReplacedBy r = None" "dbNow < ExpiresAt r"
    by blast
  from Rotate_active [OF assms this] True show ?thesis by simp
next
  case False
  from Rotate_not_active [OF this] False show ?thesis by simp
qed

theorem Rotate_amended_witness:
  "ledger_ok (demo_world None) \<and>
   TokensRepository_Rotate (demo_world None) 50 1 7 9 ''sha256:new'' 50 150 =
     (None, (demo_world None)\<lparr>auth_refresh_tokens :=
        [\<lparr>JTI = 7, UserID = 1, TokenHash = ''sha256:header.claims.signature'',
          IssuedAt = 0, ExpiresAt = 100, ReplacedBy = Some 9\<rparr>,
         \<lparr>JTI = 8, UserID = 1, TokenHash = ''sha256:header.claims1.signature1'',
          IssuedAt = 10, ExpiresAt = 110, ReplacedBy = None\<rparr>,
         \<lparr>JTI = 9, UserID = 1, TokenHash = ''sha256:new'',
          IssuedAt = 50, ExpiresAt = 150, ReplacedBy = None\<rparr>]\<rparr>) \<and>
   TokensRepository_Rotate (demo_world (Some 8)) 50 1 7 9 ''sha256:new'' 50 150 =
     (Some ErrTokenAlreadyRotatedOrExpired, demo_world (Some 8))"
proof -
  have ok: "ledger_ok (demo_world None)" "ledger_ok (demo_world (Some 8))"
    by (simp_all add: ledger_ok_def demo_world_def)
  show ?thesis
    using ok Rotate_amended [OF ok(1), of 50 1 7 9 "''sha256:new''" 50 150]
      Rotate_amended [OF ok(2), of 50 1 7 9 "''sha256:new''" 50 150]
    by (simp add: demo_world_def)
qed


section \<open>Properties of AuthService\<close>

text \<open>
  C10.  \<^verbatim>\<open>Register\<close> rejects a login of at most 3 bytes with \<^verbatim>\<open>ErrLoginTooShort\<close>, a
  login of more than 64 bytes with \<^verbatim>\<open>ErrLoginTooLong\<close>, and a password of fewer than 8
  bytes with a validation error, which is \<^verbatim>\<open>ErrPasswordTooShort\<close> when the login is
  valid; \<^verbatim>\<open>Login\<close> rejects the same logins in the same way.  The world that comes back
  is the one that went in: no row was written and the trace has no new call, so neither
  the hasher nor a repository was invoked.
\<close>

theorem Register_Login_validate_first:
  "(length login \<le> 3 \<longrightarrow>
      Register h tm now w login password = (Inl ErrLoginTooShort, w) \<and>
      Login h tm now w login password = (Inl ErrLoginTooShort, w)) \<and>
   (length login > 64 \<longrightarrow>
      Register h tm now w login password = (Inl ErrLoginTooLong, w) \<and>
      Login h tm now w login password = (Inl ErrLoginTooLong, w)) \<and>
   (length password < 8 \<longrightarrow>
      (3 < length login \<and> length login \<le> 64 \<longrightarrow>
         Register h tm now w login password = (Inl ErrPasswordTooShort, w)) \<and>
      (\<exists>e \<in> {ErrLoginTooShort, ErrLoginTooLong, ErrPasswordTooShort}.
         Register h tm now w login password = (Inl e, w)))"
  by (simp add: Register_def Login_def ValidateLogin_def ValidatePassword_def)

theorem Register_Login_validate_first_witness:
  "length ''bob'' \<le> 3 \<and>
   Register demo_hasher demo_tm 50 (demo_world None) ''bob'' ''password1''
     = (Inl ErrLoginTooShort, demo_world None) \<and>
   Login demo_hasher demo_tm 50 (demo_world None) ''bob'' ''password1''
     = (Inl ErrLoginTooShort, demo_world None) \<and>
   length (replicate 65 CHR ''a'') > 64 \<and>
   Register demo_hasher demo_tm 50 (demo_world None) (replicate 65 CHR ''a'') ''password1''
     = (Inl ErrLoginTooLong, demo_world None) \<and>
   Login demo_hasher demo_tm 50 (demo_world None) (replicate 65 CHR ''a'') ''password1''
     = (Inl ErrLoginTooLong, demo_world None) \<and>
   length ''pass'' < 8 \<and> 3 < length ''carol'' \<and> length ''carol'' \<le> 64 \<and>
   Register demo_hasher demo_tm 50 (demo_world None) ''carol'' ''pass''
     = (Inl ErrPasswordTooShort, demo_world None)"
  using
    Register_Login_validate_first
      [of "''bob''" demo_hasher demo_tm 50 "demo_world None" "''password1''"]
    Register_Login_validate_first
      [of "replicate 65 CHR ''a''" demo_hasher demo_tm 50 "demo_world None" "''password1''"]
    Register_Login_validate_first
      [of "''carol''" demo_hasher demo_tm 50 "demo_world None" "''pass''"]
  by simp

lemma ValidateToken_iff:
  "ValidateToken now userId incomingHash rec = None \<longleftrightarrow>
     UserID rec = userId \<and> ReplacedBy rec = None \<and> now \<le> ExpiresAt rec \<and>
     TokenHash rec = incomingHash"
  by (auto simp: ValidateToken_def ConstantTimeCompare_def)

lemma Rotate_trace:
  "trace (snd (TokensRepository_Rotate w dbNow userID oldJTI newJTI newHash ia ea)) = trace w"
  by (auto simp: TokensRepository_Rotate_def queryUpdate_def queryInsert_def
           split: prod.splits sum.splits)

lemma tokenRepo_Rotate_trace:
  "trace (snd (tokenRepo_Rotate dbNow userID oldJTI newJTI newHash ia ea w)) =
     trace w @ [CallRotate userID oldJTI newJTI newHash ia ea]"
proof -
  let ?w = "logCall (CallRotate userID oldJTI newJTI newHash ia ea) w"
  obtain r w' where e: "TokensRepository_Rotate ?w dbNow userID oldJTI newJTI newHash ia ea = (r, w')"
    by (cases "TokensRepository_Rotate ?w dbNow userID oldJTI newJTI newHash ia ea")
  with Rotate_trace [of ?w dbNow userID oldJTI newJTI newHash ia ea]
  have "trace w' = trace ?w" by simp
  with e show ?thesis
    by (simp add: tokenRepo_Rotate_def ofError_def logCall_def split: option.splits)
qed

lemma tokenRepo_Rotate_traceD:
  "tokenRepo_Rotate dbNow userID oldJTI newJTI newHash ia ea w = (r, w') \<Longrightarrow>
     trace w' = trace w @ [CallRotate userID oldJTI newJTI newHash ia ea]"
  using tokenRepo_Rotate_trace [of dbNow userID oldJTI newJTI newHash ia ea w] by simp

lemma GetByJTI_Some:
  "TokensRepository_GetByJTI w jti = Inr rec \<Longrightarrow>
     rec \<in> set (auth_refresh_tokens w) \<and> JTI rec = jti"
  by (auto simp: TokensRepository_GetByJTI_def find_Some_iff split: option.splits)

lemma ledger_ok_trace: "ledger_ok (w\<lparr>trace := t\<rparr>) = ledger_ok w"
  by (simp add: ledger_ok_def)

text \<open>
  C3.  Let the token manager parse the incoming token, let the claimed user id and jti
  be well formed, and let the ledger hold a record for the jti.  The record passes
  \<^verbatim>\<open>ValidateToken\<close> iff four checks hold: its user is the claimed user, it has no
  \<^verbatim>\<open>replaced_by\<close>, \<open>now \<le> expires_at\<close>, and its hash is the fingerprint of the incoming
  token.

  If they hold, \<^verbatim>\<open>Refresh\<close> issues new tokens, and what it returns is the outcome of the
  issuing alone: it calls \<^verbatim>\<open>GenerateAccessToken\<close>, \<^verbatim>\<open>GenerateRefreshToken\<close>, \<^verbatim>\<open>Sha256Hex\<close>
  on the new refresh token and \<^verbatim>\<open>Rotate\<close> from the old jti to the new one, stops at the
  first of them that fails with that call's error, and returns the new access and
  refresh token when \<^verbatim>\<open>Rotate\<close> succeeded.  So when the generators deliver, the ledger
  satisfies its key constraints, the new jti is fresh and the record has not expired on
  the database's clock, \<^verbatim>\<open>Refresh\<close> returns the two new tokens, the old record is
  replaced by the new jti and the new record is in the ledger.

  If one of the checks fails, whichever it is and whatever the others are, \<^verbatim>\<open>Refresh\<close>
  returns \<^verbatim>\<open>ErrInvalidRefreshCredentials\<close> and has made only the three calls that load
  the record; so a record whose \<^verbatim>\<open>expires_at\<close> is past fails also with the right hash.
\<close>

theorem Refresh_checks:
  assumes p: "ParseRefreshToken tm tok = Inr (userIdStr, jtiStr)"
    and u: "ParseInt userIdStr = Inr userId"
    and j: "uuid_Parse jtiStr = Inr oldJTI"
    and g: "TokensRepository_GetByJTI w oldJTI = Inr rec"
  shows "(ValidateToken now userId (Sha256Hex tm tok) rec = None \<longleftrightarrow>
            UserID rec = userId \<and> ReplacedBy rec = None \<and> now \<le> ExpiresAt rec \<and>
            TokenHash rec = Sha256Hex tm tok) \<and>
         (UserID rec = userId \<and> ReplacedBy rec = None \<and> now \<le> ExpiresAt rec \<and>
          TokenHash rec = Sha256Hex tm tok \<longrightarrow>
            Refresh uuid_Parse tm now dbNow w tok =
              (case GenerateAccessToken tm userId of
                 Inl e \<Rightarrow>
                   (Inl e,
                    w\<lparr>trace := trace w @
                        [CallParseRefreshToken tok, CallSha256Hex tok, CallGetByJTI oldJTI,
                         CallGenerateAccessToken userId]\<rparr>)
               | Inr accessToken \<Rightarrow>
                   (case GenerateRefreshToken tm userId of
                      Inl e \<Rightarrow>
                        (Inl e,
                         w\<lparr>trace := trace w @
                             [CallParseRefreshToken tok, CallSha256Hex tok,
                              CallGetByJTI oldJTI, CallGenerateAccessToken userId,
                              CallGenerateRefreshToken userId]\<rparr>)
                    | Inr (newRefreshToken, newJTI, newTTL) \<Rightarrow>
                        (case TokensRepository_Rotate
                                (w\<lparr>trace := trace w @
                                    [CallParseRefreshToken tok, CallSha256Hex tok,
                                     CallGetByJTI oldJTI, CallGenerateAccessToken userId,
                                     CallGenerateRefreshToken userId,
                                     CallSha256Hex newRefreshToken,
                                     CallRotate userId oldJTI newJTI
                                       (Sha256Hex tm newRefreshToken) now (now + newTTL)]\<rparr>)
                                dbNow userId oldJTI newJTI (Sha256Hex tm newRefreshToken)
                                now (now + newTTL) of
                           (Some e, w') \<Rightarrow> (Inl e, w')
                         | (None, w') \<Rightarrow> (Inr (accessToken, newRefreshToken), w'))))) \<and>
         (UserID rec = userId \<and> ReplacedBy rec = None \<and> now \<le> ExpiresAt rec \<and>
          TokenHash rec = Sha256Hex tm tok \<and>
          ledger_ok w \<and> dbNow < ExpiresAt rec \<and>
          GenerateAccessToken tm userId = Inr accessToken \<and>
          GenerateRefreshToken tm userId = Inr (newRefreshToken, newJTI, newTTL) \<and>
          newJTI \<notin> JTI ` set (auth_refresh_tokens w) \<longrightarrow>
            Refresh uuid_Parse tm now dbNow w tok =
              (Inr (accessToken, newRefreshToken),
               w\<lparr>auth_refresh_tokens :=
                    map (\<lambda>r. if JTI r = oldJTI then r\<lparr>ReplacedBy := Some newJTI\<rparr> else r)
                        (auth_refresh_tokens w) @
                    [\<lparr>JTI = newJTI, UserID = userId,
                      TokenHash = Sha256Hex tm newRefreshToken,
                      IssuedAt = now, ExpiresAt = now + newTTL, ReplacedBy = None\<rparr>],
                  trace := trace w @
                    [CallParseRefreshToken tok, CallSha256Hex tok, CallGetByJTI oldJTI,
                     CallGenerateAccessToken userId, CallGenerateRefreshToken userId,
                     CallSha256Hex newRefreshToken,
                     CallRotate userId oldJTI newJTI (Sha256Hex tm newRefreshToken)
                       now (now + newTTL)]\<rparr>)) \<and>
         (\<not> (UserID rec = userId \<and> ReplacedBy rec = None \<and> now \<le> ExpiresAt rec \<and>
             TokenHash rec = Sha256Hex tm tok) \<longrightarrow>
            Refresh uuid_Parse tm now dbNow w tok =
              (Inl ErrInvalidRefreshCredentials,
               w\<lparr>trace := trace w @ [CallParseRefreshToken tok, CallSha256Hex tok,
                                      CallGetByJTI oldJTI]\<rparr>)) \<and>
         (ExpiresAt rec < now \<longrightarrow>
            fst (Refresh uuid_Parse tm now dbNow w tok) = Inl ErrInvalidRefreshCredentials)"
proof -
  let ?checks = "UserID rec = userId \<and> ReplacedBy rec = None \<and> now \<le> ExpiresAt rec \<and>
                 TokenHash rec = Sha256Hex tm tok"
  let ?w3 = "w\<lparr>trace := trace w @ [CallParseRefreshToken tok, CallSha256Hex tok,
                                      CallGetByJTI oldJTI]\<rparr>"
  let ?issue = "case GenerateAccessToken tm userId of
                 Inl e \<Rightarrow>
                   (Inl e,
                    w\<lparr>trace := trace w @
                        [CallParseRefreshToken tok, CallSha256Hex tok, CallGetByJTI oldJTI,
                         CallGenerateAccessToken userId]\<rparr>)
               | Inr accessToken \<Rightarrow>
                   (case GenerateRefreshToken tm userId of
                      Inl e \<Rightarrow>
                        (Inl e,
                         w\<lparr>trace := trace w @
                             [CallParseRefreshToken tok, CallSha256Hex tok,
                              CallGetByJTI oldJTI, CallGenerateAccessToken userId,
                              CallGenerateRefreshToken userId]\<rparr>)
                    | Inr (newRefreshToken, newJTI, newTTL) \<Rightarrow>
                        (case TokensRepository_Rotate
                                (w\<lparr>trace := trace w @
                                    [CallParseRefreshToken tok, CallSha256Hex tok,
                                     CallGetByJTI oldJTI, CallGenerateAccessToken userId,
                                     CallGenerateRefreshToken userId,
                                     CallSha256Hex newRefreshToken,
                                     CallRotate userId oldJTI newJTI
                                       (Sha256Hex tm newRefreshToken) now (now + newTTL)]\<rparr>)
                                dbNow userId oldJTI newJTI (Sha256Hex tm newRefreshToken)
                                now (now + newTTL) of
                           (Some e, w') \<Rightarrow> (Inl e, w')
                         | (None, w') \<Rightarrow> (Inr (accessToken, newRefreshToken), w')))"
  have g': "\<And>t. TokensRepository_GetByJTI (w\<lparr>trace := t\<rparr>) oldJTI = Inr rec"
    using g by (simp add: TokensRepository_GetByJTI_def)
  have fails: "Refresh uuid_Parse tm now dbNow w tok = (Inl ErrInvalidRefreshCredentials, ?w3)"
    if "\<not> ?checks"
  proof -
    from that obtain e where "ValidateToken now userId (Sha256Hex tm tok) rec = Some e"
      using ValidateToken_iff [of now userId "Sha256Hex tm tok" rec]
      by (cases "ValidateToken now userId (Sha256Hex tm tok) rec") auto
    then show ?thesis
      using p u j g'
      by (simp add: Refresh_def andThen_def tokenManager_ParseRefreshToken_def
            tokenManager_Sha256Hex_def tokenRepo_GetByJTI_def logCall_def)
  qed
  have issues: "Refresh uuid_Parse tm now dbNow w tok = ?issue" if "?checks"
  proof -
    from that have v: "ValidateToken now userId (Sha256Hex tm tok) rec = None"
      by (simp add: ValidateToken_iff)
    show ?thesis
      using p u j g' v
      by (simp add: Refresh_def andThen_def tokenManager_ParseRefreshToken_def
            tokenManager_Sha256Hex_def tokenRepo_GetByJTI_def logCall_def
            tokenManager_GenerateAccessToken_def tokenManager_GenerateRefreshToken_def
            tokenRepo_Rotate_def ofError_def
            split: sum.splits prod.splits option.splits)
  qed
  have rotated: "Refresh uuid_Parse tm now dbNow w tok =
              (Inr (accessToken, newRefreshToken),
               w\<lparr>auth_refresh_tokens :=
                    map (\<lambda>r. if JTI r = oldJTI then r\<lparr>ReplacedBy := Some newJTI\<rparr> else r)
                        (auth_refresh_tokens w) @
                    [\<lparr>JTI = newJTI, UserID = userId,
                      TokenHash = Sha256Hex tm newRefreshToken,
                      IssuedAt = now, ExpiresAt = now + newTTL, ReplacedBy = None\<rparr>],
                  trace := trace w @
                    [CallParseRefreshToken tok, CallSha256Hex tok, CallGetByJTI oldJTI,
                     CallGenerateAccessToken userId, CallGenerateRefreshToken userId,
                     CallSha256Hex newRefreshToken,
                     CallRotate userId oldJTI newJTI (Sha256Hex tm newRefreshToken)
                       now (now + newTTL)]\<rparr>)"
    if c: "?checks" and ok: "ledger_ok w" and d: "dbNow < ExpiresAt rec"
      and a: "GenerateAccessToken tm userId = Inr accessToken"
      and r: "GenerateRefreshToken tm userId = Inr (newRefreshToken, newJTI, newTTL)"
      and f: "newJTI \<notin> JTI ` set (auth_refresh_tokens w)"
  proof -
    let ?w7 = "w\<lparr>trace := trace w @
                    [CallParseRefreshToken tok, CallSha256Hex tok, CallGetByJTI oldJTI,
                     CallGenerateAccessToken userId, CallGenerateRefreshToken userId,
                     CallSha256Hex newRefreshToken,
                     CallRotate userId oldJTI newJTI (Sha256Hex tm newRefreshToken)
                       now (now + newTTL)]\<rparr>"
    from g have m: "rec \<in> set (auth_refresh_tokens ?w7)" "JTI rec = oldJTI"
      by (simp_all add: GetByJTI_Some)
    from ok have ok7: "ledger_ok ?w7" by (simp add: ledger_ok_trace)
    from c have c1: "UserID rec = userId" and c2: "ReplacedBy rec = None" by simp_all
    from f have f7: "newJTI \<notin> JTI ` set (auth_refresh_tokens ?w7)" by simp
    have "TokensRepository_Rotate ?w7 dbNow userId oldJTI newJTI (Sha256Hex tm newRefreshToken)
            now (now + newTTL) =
          (None, ?w7\<lparr>auth_refresh_tokens :=
                    map (\<lambda>r. if JTI r = oldJTI then r\<lparr>ReplacedBy := Some newJTI\<rparr> else r)
                        (auth_refresh_tokens ?w7) @
                    [\<lparr>JTI = newJTI, UserID = userId,
                      TokenHash = Sha256Hex tm newRefreshToken,
                      IssuedAt = now, ExpiresAt = now + newTTL, ReplacedBy = None\<rparr>]\<rparr>)"
      using Rotate_active [OF ok7 m c1 c2 d, of newJTI "Sha256Hex tm newRefreshToken" now
              "now + newTTL"] f7
      by (simp only: if_False)
    with issues [OF c] a r show ?thesis by simp
  qed
  have expired: "fst (Refresh uuid_Parse tm now dbNow w tok) = Inl ErrInvalidRefreshCredentials"
    if "ExpiresAt rec < now"
  proof -
    from that have "\<not> ?checks" by simp
    from fails [OF this] show ?thesis by simp
  qed
  from ValidateToken_iff [of now userId "Sha256Hex tm tok" rec] fails issues rotated expired
  show ?thesis by blast
qed

theorem Refresh_checks_witness:
  "ParseRefreshToken demo_tm ''header.claims.signature''
     = Inr (''1'', ''00000000-0000-0000-0000-000000000007'') \<and>
   ParseInt ''1'' = Inr 1 \<and>
   demo_uuid_Parse ''00000000-0000-0000-0000-000000000007'' = Inr 7 \<and>
   TokensRepository_GetByJTI (demo_world None) 7
     = Inr \<lparr>JTI = 7, UserID = 1, TokenHash = ''sha256:header.claims.signature'',
            IssuedAt = 0, ExpiresAt = 100, ReplacedBy = None\<rparr> \<and>
   ledger_ok (demo_world None) \<and>
   GenerateAccessToken demo_tm 1 = Inr ''header.access.signature'' \<and>
   GenerateRefreshToken demo_tm 1 = Inr (''header.claims2.signature2'', 9, 1000) \<and>
   9 \<notin> JTI ` set (auth_refresh_tokens (demo_world None)) \<and>
   Refresh demo_uuid_Parse demo_tm 50 50 (demo_world None) ''header.claims.signature'' =
     (Inr (''header.access.signature'', ''header.claims2.signature2''),
      (demo_world None)
        \<lparr>auth_refresh_tokens :=
           [\<lparr>JTI = 7, UserID = 1, TokenHash = ''sha256:header.claims.signature'',
             IssuedAt = 0, ExpiresAt = 100, ReplacedBy = Some 9\<rparr>,
            \<lparr>JTI = 8, UserID = 1, TokenHash = ''sha256:header.claims1.signature1'',
             IssuedAt = 10, ExpiresAt = 110, ReplacedBy = None\<rparr>,
            \<lparr>JTI = 9, UserID = 1, TokenHash = ''sha256:header.claims2.signature2'',
             IssuedAt = 50, ExpiresAt = 1050, ReplacedBy = None\<rparr>],
         trace :=
           [CallParseRefreshToken ''header.claims.signature'',
            CallSha256Hex ''header.claims.signature'', CallGetByJTI 7,
            CallGenerateAccessToken 1, CallGenerateRefreshToken 1,
            CallSha256Hex ''header.claims2.signature2'',
            CallRotate 1 7 9 ''sha256:header.claims2.signature2'' 50 1050]\<rparr>) \<and>
   Refresh demo_uuid_Parse demo_tm 101 101 (demo_world None) ''header.claims.signature'' =
     (Inl ErrInvalidRefreshCredentials,
      (demo_world None)\<lparr>trace := trace (demo_world None) @
         [CallParseRefreshToken ''header.claims.signature'',
          CallSha256Hex ''header.claims.signature'', CallGetByJTI 7]\<rparr>)"
proof -
  let ?tok = "''header.claims.signature''"
  let ?rec = "\<lparr>JTI = 7, UserID = 1, TokenHash = ''sha256:header.claims.signature'',
            IssuedAt = 0, ExpiresAt = 100, ReplacedBy = None\<rparr>"
  have p: "ParseRefreshToken demo_tm ?tok = Inr (''1'', ''00000000-0000-0000-0000-000000000007'')"
    by (simp add: demo_tm_def JWTManager_ParseRefreshToken_def demo_ParseWithClaims_def)
  have u: "ParseInt ''1'' = Inr 1"
    by (simp add: ParseInt_def ParseUint_def IsDigit_def)
  have j: "demo_uuid_Parse ''00000000-0000-0000-0000-000000000007'' = Inr 7"
    by (simp add: demo_uuid_Parse_def)
  have g: "TokensRepository_GetByJTI (demo_world None) 7 = Inr ?rec"
    by (simp add: TokensRepository_GetByJTI_def demo_world_def)
  have h: "TokenHash ?rec = Sha256Hex demo_tm ?tok" by (simp add: demo_tm_def)
  have ok: "ledger_ok (demo_world None)" by (simp add: ledger_ok_def demo_world_def)
  have a: "GenerateAccessToken demo_tm 1 = Inr ''header.access.signature''"
    by (simp add: demo_tm_def)
  have r: "GenerateRefreshToken demo_tm 1 = Inr (''header.claims2.signature2'', 9, 1000)"
    by (simp add: demo_tm_def)
  have f: "9 \<notin> JTI ` set (auth_refresh_tokens (demo_world None))"
    by (simp add: demo_world_def)
  have c: "UserID ?rec = 1 \<and> ReplacedBy ?rec = None \<and> 50 \<le> ExpiresAt ?rec \<and>
           TokenHash ?rec = Sha256Hex demo_tm ?tok \<and> 50 < ExpiresAt ?rec"
    by (simp add: demo_tm_def)
  from Refresh_checks [where uuid_Parse = demo_uuid_Parse and now = 50 and dbNow = 50
         and accessToken = "''header.access.signature''"
         and newRefreshToken = "''header.claims2.signature2''" and newJTI = 9
         and newTTL = 1000, OF p u j g] c ok a r f
  have "Refresh demo_uuid_Parse demo_tm 50 50 (demo_world None) ?tok =
     (Inr (''header.access.signature'', ''header.claims2.signature2''),
      (demo_world None)
        \<lparr>auth_refresh_tokens :=
           map (\<lambda>r. if JTI r = 7 then r\<lparr>ReplacedBy := Some 9\<rparr> else r)
               (auth_refresh_tokens (demo_world None)) @
           [\<lparr>JTI = 9, UserID = 1, TokenHash = Sha256Hex demo_tm ''header.claims2.signature2'',
             IssuedAt = 50, ExpiresAt = 50 + 1000, ReplacedBy = None\<rparr>],
         trace := trace (demo_world None) @
           [CallParseRefreshToken ?tok, CallSha256Hex ?tok, CallGetByJTI 7,
            CallGenerateAccessToken 1, CallGenerateRefreshToken 1,
            CallSha256Hex ''header.claims2.signature2'',
            CallRotate 1 7 9 (Sha256Hex demo_tm ''header.claims2.signature2'') 50
              (50 + 1000)]\<rparr>)"
    by blast
  then have s: "Refresh demo_uuid_Parse demo_tm 50 50 (demo_world None) ?tok =
     (Inr (''header.access.signature'', ''header.claims2.signature2''),
      (demo_world None)
        \<lparr>auth_refresh_tokens :=
           [\<lparr>JTI = 7, UserID = 1, TokenHash = ''sha256:header.claims.signature'',
             IssuedAt = 0, ExpiresAt = 100, ReplacedBy = Some 9\<rparr>,
            \<lparr>JTI = 8, UserID = 1, TokenHash = ''sha256:header.claims1.signature1'',
             IssuedAt = 10, ExpiresAt = 110, ReplacedBy = None\<rparr>,
            \<lparr>JTI = 9, UserID = 1, TokenHash = ''sha256:header.claims2.signature2'',
             IssuedAt = 50, ExpiresAt = 1050, ReplacedBy = None\<rparr>],
         trace :=
           [CallParseRefreshToken ?tok, CallSha256Hex ?tok, CallGetByJTI 7,
            CallGenerateAccessToken 1, CallGenerateRefreshToken 1,
            CallSha256Hex ''header.claims2.signature2'',
            CallRotate 1 7 9 ''sha256:header.claims2.signature2'' 50 1050]\<rparr>)"
    by (simp add: demo_tm_def) (simp add: demo_world_def)
  from Refresh_checks [where uuid_Parse = demo_uuid_Parse and now = 101 and dbNow = 101, OF p u j g]
  have b: "Refresh demo_uuid_Parse demo_tm 101 101 (demo_world None) ?tok =
     (Inl ErrInvalidRefreshCredentials,
      (demo_world None)\<lparr>trace := trace (demo_world None) @
         [CallParseRefreshToken ?tok, CallSha256Hex ?tok, CallGetByJTI 7]\<rparr>)"
    by simp
  from p u j g ok a r f s b show ?thesis by (intro conjI)
qed


text \<open>
  The part of C4 that the code keeps: after a valid login name, \<^verbatim>\<open>Login\<close> returns
  \<^verbatim>\<open>ErrInvalidCredentials\<close> both when no user has the login and when the password does not
  match the stored hash.
\<close>

lemma Login_failures_same:
  assumes "ValidateLogin login = None"
    and "UsersRepository_GetByLogin w login = Inl ErrUserNotFound \<or>
         (\<exists>au. UsersRepository_GetByLogin w login = Inr au \<and>
               \<not> CheckPasswordHash h password (PasswordHash au))"
  shows "fst (Login h tm now w login password) = Inl ErrInvalidCredentials"
  using assms
  by (auto simp: Login_def userRepo_GetByLogin_def hasher_CheckPasswordHash_def)

text \<open>
  C4 does not hold of \<^verbatim>\<open>Refresh\<close>.  In the example world the record of jti 7 was rotated
  to jti 8.  The token that parses (a replayed token) is answered with
  \<^verbatim>\<open>ErrInvalidRefreshCredentials\<close>, and so is the same token on the unrotated ledger after
  the record has expired; a token that fails the parser of \<^verbatim>\<open>JWTManager\<close> (a tampered
  token) is answered with the parser's own \<^verbatim>\<open>ErrRefreshExpiredToken\<close>, which \<^verbatim>\<open>Refresh\<close>
  hands on unchanged.  The two are different errors, and the handler answers them with
  different status codes and texts.
\<close>

theorem Refresh_errors_differ:
  "fst (Refresh demo_uuid_Parse demo_tm 50 50 (demo_world (Some 8)) ''header.claims.signaturX'')
     = Inl ErrRefreshExpiredToken \<and>
   fst (Refresh demo_uuid_Parse demo_tm 50 50 (demo_world (Some 8)) ''header.claims.signature'')
     = Inl ErrInvalidRefreshCredentials \<and>
   fst (Refresh demo_uuid_Parse demo_tm 101 101 (demo_world None) ''header.claims.signature'')
     = Inl ErrInvalidRefreshCredentials \<and>
   ErrRefreshExpiredToken \<noteq> ErrInvalidRefreshCredentials \<and>
   Handlers_Refresh_error ErrRefreshExpiredToken = (401, ''expired refresh token'') \<and>
   Handlers_Refresh_error ErrInvalidRefreshCredentials = (500, ''Something went wrong..'')"
  by (simp add: Refresh_def andThen_def tokenManager_ParseRefreshToken_def
        tokenManager_Sha256Hex_def tokenRepo_GetByJTI_def logCall_def demo_tm_def
        demo_world_def demo_uuid_Parse_def demo_ParseWithClaims_def
        JWTManager_ParseRefreshToken_def ParseInt_def ParseUint_def IsDigit_def
        TokensRepository_GetByJTI_def ValidateToken_def ConstantTimeCompare_def
        Handlers_Refresh_error_def isAuthError_def)

section \<open>Properties of the AEAD\<close>

lemma length_bytes_of_block: "length (bytes_of_block x) = 16"
  by (simp add: bytes_of_block_def)

lemma length_keystream: "length (keystream rk cb n) = 16 * n"
  by (induction n arbitrary: cb) (simp_all add: length_bytes_of_block)

lemma xor_twice:
  "length xs \<le> length ks \<Longrightarrow> map2 (XOR) (map2 (XOR) xs ks) ks = (xs :: byte list)"
proof (induction xs arbitrary: ks)
  case Nil
  then show ?case by simp
next
  case (Cons x xs)
  then obtain k ks' where ks: "ks = k # ks'" by (cases ks) auto
  with Cons show ?case by (simp add: xor.assoc)
qed

lemma length_gctr: "length (gctr rk icb xs) = length xs"
  by (simp add: gctr_def length_keystream)

lemma gctr_twice: "gctr rk icb (gctr rk icb xs) = xs"
proof -
  have "length xs \<le> length (keystream rk icb ((length xs + 15) div 16))"
    by (simp add: length_keystream)
  then show ?thesis
    using xor_twice [of xs "keystream rk icb ((length xs + 15) div 16)"]
    by (simp add: gctr_def length_keystream)
qed

lemma length_gcmTag: "length (gcmTag rk nonce c) = 16"
  by (simp add: gcmTag_def Let_def length_bytes_of_block)

lemma gcm_Open_Seal:
  "gcm_Seal rk nonce plaintext = Inr ciphertext \<Longrightarrow> gcm_Open rk nonce ciphertext = Inr plaintext"
  by (auto simp: gcm_Seal_def gcm_Open_def Let_def length_gctr length_gcmTag gcmTagSize_def
        ConstantTimeCompare_def gctr_twice split: if_splits)

lemma gcm_Seal_ok:
  "length nonce = 12 \<Longrightarrow> length plaintext \<le> (2 ^ 32 - 2) * 16 \<Longrightarrow>
     \<exists>c. gcm_Seal rk nonce plaintext = Inr c"
  by (simp add: gcm_Seal_def gcmStandardNonceSize_def Let_def)

lemma NewAEAD_key: "NewAEAD secret = Inr a \<Longrightarrow> length (key a) = 32"
  by (auto simp: NewAEAD_def Let_def split: if_splits)

lemma Decrypt_after_Encrypt:
  "Encrypt a random p = Inr (nonce, ciphertext) \<Longrightarrow> Decrypt a nonce ciphertext = Inr p"
  by (auto simp: Encrypt_def Decrypt_def gcm_Open_Seal split: sum.splits)

lemma Encrypt_succeeds:
  assumes "NewAEAD secret = Inr a" and "12 \<le> length random"
    and "length p \<le> (2 ^ 32 - 2) * 16"
  shows "\<exists>nonce ciphertext. Encrypt a random p = Inr (nonce, ciphertext)"
proof -
  from assms(1) have k: "length (key a) = 32" by (rule NewAEAD_key)
  from assms(2,3) have "\<exists>c. gcm_Seal (expandKey (key a)) (take 12 random) p = Inr c"
    by (intro gcm_Seal_ok) simp_all
  then show ?thesis
    using assms(2) k
    by (auto simp: Encrypt_def aes_NewCipher_def io_ReadFull_def gcmStandardNonceSize_def)
qed

text \<open>
  C5.  For an AEAD made by \<^verbatim>\<open>NewAEAD\<close> from a key of 32 bytes and for every payload
  \<open>p\<close>: whenever \<^verbatim>\<open>Encrypt\<close> returns a nonce and a ciphertext, \<^verbatim>\<open>Decrypt\<close> of that pair
  returns exactly \<open>p\<close>; and \<^verbatim>\<open>Encrypt\<close> does return a pair whenever the random source
  delivers the 12 bytes of the nonce and the payload is within the size GCM can seal.
\<close>

theorem Decrypt_Encrypt:
  assumes "NewAEAD secret = Inr a"
  shows "(Encrypt a random p = Inr (nonce, ciphertext) \<longrightarrow> Decrypt a nonce ciphertext = Inr p) \<and>
         (12 \<le> length random \<and> length p \<le> (2 ^ 32 - 2) * 16 \<longrightarrow>
            (\<exists>nonce ciphertext. Encrypt a random p = Inr (nonce, ciphertext)))"
  using assms by (auto simp: Decrypt_after_Encrypt intro: Encrypt_succeeds)

theorem Decrypt_Encrypt_witness:
  "NewAEAD ''12345678901234567890123456789012'' = Inr demo_aead \<and>
   (\<exists>nonce ciphertext.
      Encrypt demo_aead demo_random (map of_char ''secret data'') = Inr (nonce, ciphertext) \<and>
      Decrypt demo_aead nonce ciphertext = Inr (map of_char ''secret data''))"
proof -
  let ?p = "map of_char ''secret data'' :: byte list"
  have n: "NewAEAD ''12345678901234567890123456789012'' = Inr demo_aead"
    by (simp add: NewAEAD_def demo_aead_def)
  have l: "12 \<le> length demo_random \<and> length ?p \<le> (2 ^ 32 - 2) * 16"
    by (simp add: demo_random_def)
  from Decrypt_Encrypt [OF n, of demo_random ?p] l
  obtain nonce ciphertext where e: "Encrypt demo_aead demo_random ?p = Inr (nonce, ciphertext)"
    by blast
  from Decrypt_Encrypt [OF n, of demo_random ?p nonce ciphertext] e
  have "Decrypt demo_aead nonce ciphertext = Inr ?p" by blast
  with n e show ?thesis by blast
qed


section \<open>Properties of the keychain\<close>

lemma find_append_None: "find P xs = None \<Longrightarrow> find P (xs @ ys) = find P ys"
  by (induction xs) (auto split: if_splits)

lemma varchar_fits: "RuneCount s \<le> n \<Longrightarrow> varchar n s = Inr s"
  by (simp add: varchar_def)

lemma AddKey_GetUserKey:
  assumes "KeychainRepository_AddKey w u dbNow uid kt title data nonce = (Inr u', w')"
  shows "u' = u \<and>
         (\<exists>rec. KeychainRepository_GetUserKey w' uid u = Inr rec \<and>
                varchar 128 title = Inr (Title rec) \<and>
                kKeyType rec = kt \<and> Data rec = data \<and> Nonce rec = nonce)"
proof -
  from assms obtain stored where st: "varchar 128 title = Inr stored"
    by (cases "varchar 128 title") (auto simp: KeychainRepository_AddKey_def Let_def)
  from assms have fresh: "u \<notin> set (map (\<lambda>r. KeyUUID (row r)) (keychain w))"
    and res: "u' = u"
    and w': "keychain w' = keychain w @
                 [\<lparr>row = \<lparr>kID = keychain_id_seq w + 1, KeyUUID = u, kUserID = uid,
                          kKeyType = kt, Title = stored, Data = data, Nonce = nonce,
                          CreatedAt = dbNow, UpdatedAt = dbNow\<rparr>,
                   soft_deleted = False\<rparr>]"
    by (auto simp: KeychainRepository_AddKey_def Let_def st split: if_splits)
  have "find (\<lambda>r. soft_deleted r = False \<and> KeyUUID (row r) = u \<and> kUserID (row r) = uid)
          (keychain w) = None"
    using fresh by (auto simp: find_None_iff)
  then show ?thesis
    using res by (simp add: KeychainRepository_GetUserKey_def w' find_append_None st)
qed

lemma Add_then_Get:
  assumes e: "Encrypt a random plain = Inr (nonce, ct)"
    and k: "KeychainRepository_AddKey w u dbNow uid kt title ct nonce = (Inr u', w')"
  shows "\<exists>rec. GetKey a w' uid u' = Inr (rec, plain) \<and>
               varchar 128 title = Inr (Title rec) \<and> kKeyType rec = kt"
proof -
  from AddKey_GetUserKey [OF k] obtain rec where
    r: "u' = u" "KeychainRepository_GetUserKey w' uid u = Inr rec"
       "varchar 128 title = Inr (Title rec)"
       "kKeyType rec = kt" "Data rec = ct" "Nonce rec = nonce"
    by blast
  from e have "Decrypt a nonce ct = Inr plain" by (rule Decrypt_after_Encrypt)
  with r show ?thesis by (simp add: GetKey_def)
qed

text \<open>
  What \<^verbatim>\<open>GetKey\<close> returns after each of the four \<^verbatim>\<open>Add\<close> methods succeeded: the record
  with the submitted title as the column \<^verbatim>\<open>VARCHAR(128)\<close> took it (the title itself when
  it has at most 128 characters), and as decrypted data the JSON that was encrypted.
  For a credential, a card and a text that JSON holds every submitted field.
\<close>

lemma AddCredential_GetKey:
  assumes "AddCredential enc a w u dbNow random uid in' = (Inr u', w')"
  shows "\<exists>rec. GetKey a w' uid u' =
            Inr (rec, Marshal_CredentialData enc
                        \<lparr>cdLogin = acLogin in', cdPassword = acPassword in',
                         cdSite = acSite in', cdNote = acNote in'\<rparr>) \<and>
          varchar 128 (acTitle in') = Inr (Title rec) \<and> kKeyType rec = KeyCredential"
  using assms
  by (auto simp: AddCredential_def Let_def split: option.splits sum.splits
           intro!: Add_then_Get)

lemma AddCard_GetKey:
  assumes "AddCard enc a w u dbNow random uid in' = (Inr u', w')"
  shows "\<exists>rec. GetKey a w' uid u' =
            Inr (rec, Marshal_CardData enc
                        \<lparr>kdNumber = akNumber in', kdExpDate = akExpDate in',
                         kdCVV = akCVV in', kdHolder = akHolder in',
                         kdBank = akBank in', kdNote = akNote in'\<rparr>) \<and>
          varchar 128 (akTitle in') = Inr (Title rec) \<and> kKeyType rec = KeyBankCard"
  using assms
  by (auto simp: AddCard_def Let_def split: option.splits sum.splits
           intro!: Add_then_Get)

lemma AddText_GetKey:
  assumes "AddText enc a w u dbNow random uid in' = (Inr u', w')"
  shows "\<exists>rec. GetKey a w' uid u' =
            Inr (rec, Marshal_TextData enc \<lparr>tdText = atText in', tdNote = atNote in'\<rparr>) \<and>
          varchar 128 (atTitle in') = Inr (Title rec) \<and> kKeyType rec = KeyText"
  using assms
  by (auto simp: AddText_def Let_def split: option.splits sum.splits
           intro!: Add_then_Get)

lemma AddFile_GetKey:
  assumes "AddFile enc a w u dbNow random uid in' = (Inr u', w')"
  shows "\<exists>rec. GetKey a w' uid u' =
            Inr (rec, Marshal_FileData enc \<lparr>fdFile = afFile in', fdNote = afNote in'\<rparr>) \<and>
          varchar 128 (afTitle in') = Inr (Title rec) \<and> kKeyType rec = KeyFile"
  using assms
  by (auto simp: AddFile_def Let_def split: option.splits sum.splits
           intro!: Add_then_Get)

text \<open>
  C1 does not hold of \<^verbatim>\<open>AddFile\<close>.  What \<^verbatim>\<open>AddFile\<close> does is the same for every content
  of the file: the bytes never reach the JSON that is encrypted.  In the example world,
  user 1 adds the file \<^verbatim>\<open>file content\<close> under the title \<^verbatim>\<open>Title\<close> with no note; the
  call succeeds, and \<^verbatim>\<open>GetKey\<close> with the returned uuid yields the record with that
  title and type \<^verbatim>\<open>file\<close>, whose data decrypt to the two bytes \<^verbatim>\<open>{}\<close>.
\<close>

theorem AddFile_file_bytes_lost:
  "AddFile enc a w keyUUID dbNow random userID (in'\<lparr>afFile := f\<rparr>) =
     AddFile enc a w keyUUID dbNow random userID in' \<and>
   (case AddFile enc demo_aead (demo_world None) 7 50 demo_random 1
           \<lparr>afTitle = ''Title'', afFile = map of_char ''file content'', afNote = []\<rparr> of
      (Inl e, w') \<Rightarrow> False
    | (Inr u, w') \<Rightarrow>
        (case GetKey demo_aead w' 1 u of
           Inl e \<Rightarrow> False
         | Inr (rec, data) \<Rightarrow>
             Title rec = ''Title'' \<and> kKeyType rec = KeyFile \<and> data = map of_char ''{}''))"
proof
  show "AddFile enc a w keyUUID dbNow random userID (in'\<lparr>afFile := f\<rparr>) =
          AddFile enc a w keyUUID dbNow random userID in'"
    by (auto simp: AddFile_def Marshal_FileData_def Let_def split: option.splits sum.splits)
next
  let ?in = "\<lparr>afTitle = ''Title'', afFile = map of_char ''file content'', afNote = []\<rparr>"
  define plain :: "byte list" where "plain = map of_char ''{}''"
  have n: "NewAEAD ''12345678901234567890123456789012'' = Inr demo_aead"
    by (simp add: NewAEAD_def demo_aead_def)
  have v: "ValidateTitle ''Title'' = None" by code_simp
  have m: "\<And>f. Marshal_FileData enc \<lparr>fdFile = f, fdNote = []\<rparr> = plain"
    by (simp add: Marshal_FileData_def omitempty_def plain_def)
  have "12 \<le> length demo_random" "length plain \<le> (2 ^ 32 - 2) * 16"
    by (simp_all add: demo_random_def plain_def)
  from Encrypt_succeeds [OF n this]
  obtain nonce ct where e: "Encrypt demo_aead demo_random plain = Inr (nonce, ct)"
    by blast
  have "RuneCount ''Title'' \<le> 128" by code_simp
  then have t: "varchar 128 ''Title'' = Inr ''Title''" by (rule varchar_fits)
  obtain w' where
    k: "KeychainRepository_AddKey (demo_world None) 7 50 1 KeyFile ''Title'' ct nonce = (Inr 7, w')"
    by (simp add: KeychainRepository_AddKey_def demo_world_def t)
  have a: "AddFile enc demo_aead (demo_world None) 7 50 demo_random 1 ?in = (Inr 7, w')"
    by (simp add: AddFile_def v m e k)
  from Add_then_Get [OF e k] obtain rec where
    "GetKey demo_aead w' 1 7 = Inr (rec, plain)" "varchar 128 ''Title'' = Inr (Title rec)"
    "kKeyType rec = KeyFile"
    by blast
  then have "GetKey demo_aead w' 1 7 = Inr (rec, plain)" "Title rec = ''Title''"
    "kKeyType rec = KeyFile"
    by (simp_all add: t)
  with a show "case AddFile enc demo_aead (demo_world None) 7 50 demo_random 1 ?in of
      (Inl e, w') \<Rightarrow> False
    | (Inr u, w') \<Rightarrow>
        (case GetKey demo_aead w' 1 u of
           Inl e \<Rightarrow> False
         | Inr (rec, data) \<Rightarrow>
             Title rec = ''Title'' \<and> kKeyType rec = KeyFile \<and> data = map of_char ''{}'')"
    by (simp add: plain_def)
qed

end
